theory Spec2Isabelle
  imports Main
begin

section \<open>Python values\<close>

text \<open>
  The orchestrator (\<^verbatim>\<open>backend/orchestrator.py\<close>) passes Python dictionaries between
  itself, its four agents and its caller.  Dictionaries whose keys the orchestrator reads
  one by one are records with optional fields (\<open>None\<close>: the key is absent); dictionaries
  that are handed on as they are (the review result, the final response) are association
  lists over a small universe of Python values.  Strings are byte strings: a character
  outside ASCII is written as its UTF-8 bytes.
\<close>

datatype pyval =
    PyNone
  | PyStr string
  | PyInt int
  | PyOther string
  | PyList "pyval list"
  | PyDict "(string \<times> pyval) list"

type_synonym pydict = "(string \<times> pyval) list"

text \<open>\<^verbatim>\<open>d.get(key, default)\<close> and the truth value of a dictionary.\<close>

definition dict_get :: "pydict \<Rightarrow> string \<Rightarrow> pyval \<Rightarrow> pyval" where
  "dict_get d key dflt = (case map_of d key of Some v \<Rightarrow> v | None \<Rightarrow> dflt)"

definition dict_truthy :: "pydict option \<Rightarrow> bool" where
  "dict_truthy r = (case r of None \<Rightarrow> False | Some d \<Rightarrow> d \<noteq> [])"

text \<open>
  An exception is kept as the text \<^verbatim>\<open>str(e)\<close> that the handlers put into the error
  log.  \<^verbatim>\<open>str(KeyError('status'))\<close> is the key in single quotes.  The exceptions
  are those derived from \<^verbatim>\<open>Exception\<close>, which every handler of the orchestrator
  catches.
\<close>

datatype exn = Exception string

fun str_exn :: "exn \<Rightarrow> string" where
  "str_exn (Exception msg) = msg"

definition KeyError :: "string \<Rightarrow> exn" where
  "KeyError key = Exception ([CHR 0x27] @ key @ [CHR 0x27])"

text \<open>Decimal rendering of an integer, as an f-string does it.\<close>

definition digit_char :: "nat \<Rightarrow> char" where
  "digit_char d = char_of (48 + d)"

function str_nat :: "nat \<Rightarrow> string" where
  "str_nat n = (if n < 10 then [digit_char n] else str_nat (n div 10) @ [digit_char (n mod 10)])"
  by pat_completeness auto
termination
  by (relation "measure id") auto

definition str_int :: "int \<Rightarrow> string" where
  "str_int i = (if i < 0 then CHR ''-'' # str_nat (nat (- i)) else str_nat (nat i))"

definition newline :: string where
  "newline = [CHR 0x0A]"

text \<open>The check mark U+2705 that the response compiler puts before its status words.\<close>

definition check_mark :: string where
  "check_mark = [CHR 0xE2, CHR 0x9C, CHR 0x85]"

section \<open>Request state\<close>

datatype Stage =
    Stage_INITIALIZED
  | Stage_CODE_GENERATION
  | Stage_SYNTAX_CHECK
  | Stage_HALLUCINATION_CHECK
  | Stage_CODE_REVIEW
  | Stage_COMPLETED
  | Stage_FAILED

fun Stage_value :: "Stage \<Rightarrow> string" where
  "Stage_value Stage_INITIALIZED = ''initialized''"
| "Stage_value Stage_CODE_GENERATION = ''code_generation''"
| "Stage_value Stage_SYNTAX_CHECK = ''syntax_check''"
| "Stage_value Stage_HALLUCINATION_CHECK = ''hallucination_check''"
| "Stage_value Stage_CODE_REVIEW = ''code_review''"
| "Stage_value Stage_COMPLETED = ''completed''"
| "Stage_value Stage_FAILED = ''failed''"

datatype Status =
    Status_IN_PROGRESS
  | Status_COMPLETED
  | Status_FAILED

fun Status_value :: "Status \<Rightarrow> string" where
  "Status_value Status_IN_PROGRESS = ''in_progress''"
| "Status_value Status_COMPLETED = ''completed''"
| "Status_value Status_FAILED = ''failed''"

text \<open>Results of the agents, with the keys the orchestrator reads.\<close>

record syntax_error =
  se_line :: "int option"
  se_issue :: "string option"
  se_fix :: "string option"

record syntax_result =
  sr_status :: "string option"
  sr_errors :: "syntax_error list option"
  sr_corrected_code :: "string option"

record hallucination =
  h_type :: "string option"
  h_referenced :: "string option"
  h_issue :: "string option"
  h_suggestion :: "string option"

record hallucination_result =
  hr_status :: "string option"
  hr_hallucinations :: "hallucination list option"

record generation_result =
  gr_status :: "string option"
  gr_code :: "string option"
  gr_error :: "string option"

text \<open>
  The request dictionary built for the generator.  \<open>previous_attempt\<close> and \<open>feedback\<close>
  are \<open>None\<close> when the key is not set; the previous attempt itself is \<open>None\<close> when no
  code has been stored yet.
\<close>

record generation_request =
  action :: string
  request :: string
  constraints :: "string list"
  previous_attempt :: "string option option"
  feedback :: "string option"

record Attempts =
  generation :: int
  syntax_fix :: int
  hallucination_fix :: int

record Artifacts =
  generated_code :: "string option"
  syntax_result :: "syntax_result option"
  hallucination_result :: "hallucination_result option"
  review_result :: "pydict option"

record RequestState =
  request_id :: string
  user_request :: string
  current_stage :: Stage
  status :: Status
  attempts :: Attempts
  artifacts :: Artifacts
  error_messages :: "string list"
  created_at :: string

text \<open>
  The dataclass defaults; the identifier (\<^verbatim>\<open>uuid.uuid4()\<close>) and the creation time
  (\<^verbatim>\<open>datetime.now()\<close>) come from outside.
\<close>

definition new_RequestState :: "string \<Rightarrow> string \<Rightarrow> string \<Rightarrow> RequestState" where
  "new_RequestState rid req now =
     \<lparr> request_id = rid,
       user_request = req,
       current_stage = Stage_INITIALIZED,
       status = Status_IN_PROGRESS,
       attempts = \<lparr> generation = 0, syntax_fix = 0, hallucination_fix = 0 \<rparr>,
       artifacts = \<lparr> generated_code = None, syntax_result = None,
                     hallucination_result = None, review_result = None \<rparr>,
       error_messages = [],
       created_at = now \<rparr>"

text \<open>\<^verbatim>\<open>RequestState.to_dict\<close>: a copy of the fields, stage and status by their values.\<close>

record state_dict =
  sd_request_id :: string
  sd_user_request :: string
  sd_current_stage :: string
  sd_status :: string
  sd_attempts :: Attempts
  sd_artifacts :: Artifacts
  sd_error_messages :: "string list"
  sd_created_at :: string

definition to_dict :: "RequestState \<Rightarrow> state_dict" where
  "to_dict state =
     \<lparr> sd_request_id = request_id state,
       sd_user_request = user_request state,
       sd_current_stage = Stage_value (current_stage state),
       sd_status = Status_value (status state),
       sd_attempts = attempts state,
       sd_artifacts = artifacts state,
       sd_error_messages = error_messages state,
       sd_created_at = created_at state \<rparr>"

section \<open>The agents and the record of their calls\<close>

text \<open>
  The four agents are services outside the orchestrator: a language model behind the
  generator and the reviewer, the Python parser and importer behind the two checkers.
  Each is a function of the number of calls the service has already answered and of the
  arguments of the call, so that any sequence of answers can be described; it either
  raises (\<open>Inl\<close>) or returns its result dictionary (\<open>Inr\<close>).  A result that is not a
  dictionary makes the first subscript on it raise, which the model covers by \<open>Inl\<close>.
\<close>

record agents =
  generate :: "nat \<Rightarrow> generation_request \<Rightarrow> exn + generation_result"
  validate :: "nat \<Rightarrow> string option \<Rightarrow> string \<Rightarrow> exn + syntax_result"
  verify :: "nat \<Rightarrow> string option \<Rightarrow> exn + hallucination_result"
  review :: "nat \<Rightarrow> string option \<Rightarrow> string \<Rightarrow> exn + pydict"

text \<open>The arguments of every call made so far, oldest first.\<close>

record call_log =
  generate_calls :: "generation_request list"
  validate_calls :: "(string option \<times> string) list"
  verify_calls :: "string option list"
  review_calls :: "(string option \<times> string) list"

definition no_calls :: call_log where
  "no_calls = \<lparr> generate_calls = [], validate_calls = [], verify_calls = [], review_calls = [] \<rparr>"

section \<open>The orchestrator\<close>

definition MAX_GENERATION_RETRIES :: int where
  "MAX_GENERATION_RETRIES = 3"

definition MAX_SYNTAX_RETRIES :: int where
  "MAX_SYNTAX_RETRIES = 3"

definition MAX_HALLUCINATION_RETRIES :: int where
  "MAX_HALLUCINATION_RETRIES = 3"

definition MAX_TOTAL_RETRIES :: int where
  "MAX_TOTAL_RETRIES = 5"

text \<open>
  \<^verbatim>\<open>_log\<close> prints and changes nothing; it is left out.  The three retry loops have
  one form,
  \<^verbatim>\<open>for attempt in range(1, N + 1): body\<close> followed by \<^verbatim>\<open>return False\<close>,
  which is a recursion over the list \<open>[1..N]\<close>: one pass of the body yields \<open>Some b\<close>
  when it executes \<^verbatim>\<open>return b\<close> and \<open>None\<close> when it falls through to the next pass.
\<close>

fun for_attempts ::
  "(int \<Rightarrow> 's \<Rightarrow> bool option \<times> 's) \<Rightarrow> int list \<Rightarrow> 's \<Rightarrow> bool \<times> 's" where
  "for_attempts body [] s = (False, s)"
| "for_attempts body (attempt # rest) s =
     (case body attempt s of
        (Some b, s') \<Rightarrow> (b, s')
      | (None, s') \<Rightarrow> for_attempts body rest s')"

subsection \<open>Stage 1: code generation\<close>

definition generation_request_data :: "int \<Rightarrow> RequestState \<Rightarrow> generation_request" where
  "generation_request_data attempt state =
     (let request_data = \<lparr> action = ''generate'', request = user_request state,
                            constraints = [''python_only'', ''no_placeholders''],
                            previous_attempt = None, feedback = None \<rparr>
      in if attempt > 1 \<and> error_messages state \<noteq> []
         then request_data \<lparr> previous_attempt := Some (generated_code (artifacts state)),
                             feedback := Some (last (error_messages state)) \<rparr>
         else request_data)"

definition generation_except :: "exn \<Rightarrow> RequestState \<Rightarrow> RequestState" where
  "generation_except e state =
     state \<lparr> error_messages := error_messages state @ [''Generation exception: '' @ str_exn e] \<rparr>"

fun code_generation_attempt ::
  "agents \<Rightarrow> int \<Rightarrow> RequestState \<times> call_log \<Rightarrow> bool option \<times> RequestState \<times> call_log" where
  "code_generation_attempt ag attempt (state0, log) =
     (let state = state0 \<lparr> attempts := (attempts state0) \<lparr> generation := attempt \<rparr> \<rparr>;
          request_data = generation_request_data attempt state;
          log' = log \<lparr> generate_calls := generate_calls log @ [request_data] \<rparr>
      in case generate ag (length (generate_calls log)) request_data of
           Inl e \<Rightarrow> (None, generation_except e state, log')
         | Inr result \<Rightarrow>
             (case gr_status result of
                None \<Rightarrow> (None, generation_except (KeyError ''status'') state, log')
              | Some s \<Rightarrow>
                  if s = ''success'' then
                    (case gr_code result of
                       None \<Rightarrow> (None, generation_except (KeyError ''code'') state, log')
                     | Some code \<Rightarrow>
                         (Some True,
                          state \<lparr> artifacts := (artifacts state) \<lparr> generated_code := Some code \<rparr> \<rparr>,
                          log'))
                  else
                    (let error_msg = (case gr_error result of None \<Rightarrow> ''Unknown error''
                                                            | Some m \<Rightarrow> m)
                     in (None,
                         state \<lparr> error_messages :=
                                   error_messages state @ [''Generation error: '' @ error_msg] \<rparr>,
                         log'))))"

fun run_code_generation ::
  "agents \<Rightarrow> RequestState \<times> call_log \<Rightarrow> bool \<times> RequestState \<times> call_log" where
  "run_code_generation ag (state, log) =
     for_attempts (code_generation_attempt ag) [1..MAX_GENERATION_RETRIES]
       (state \<lparr> current_stage := Stage_CODE_GENERATION \<rparr>, log)"

subsection \<open>Feedback formatting\<close>

fun syntax_error_lines :: "nat \<Rightarrow> syntax_error list \<Rightarrow> string" where
  "syntax_error_lines i [] = []"
| "syntax_error_lines i (error # errors) =
     str_nat i @ ''. Line '' @ (case se_line error of None \<Rightarrow> ''?'' | Some l \<Rightarrow> str_int l)
       @ '': '' @ (case se_issue error of None \<Rightarrow> ''Unknown issue'' | Some m \<Rightarrow> m) @ newline
       @ ''   Fix: '' @ (case se_fix error of None \<Rightarrow> ''No suggestion'' | Some m \<Rightarrow> m) @ newline
       @ syntax_error_lines (Suc i) errors"

definition format_syntax_errors :: "syntax_result \<Rightarrow> string" where
  "format_syntax_errors result =
     (let errors = (case sr_errors result of None \<Rightarrow> [] | Some es \<Rightarrow> es)
      in ''Syntax Errors Found:'' @ newline @ syntax_error_lines 1 errors)"

fun hallucination_lines :: "nat \<Rightarrow> hallucination list \<Rightarrow> string" where
  "hallucination_lines i [] = []"
| "hallucination_lines i (h # hs) =
     str_nat i @ ''. '' @ (case h_type h of None \<Rightarrow> ''Unknown'' | Some m \<Rightarrow> m)
       @ '': '' @ (case h_referenced h of None \<Rightarrow> ''Unknown'' | Some m \<Rightarrow> m) @ newline
       @ ''   Issue: '' @ (case h_issue h of None \<Rightarrow> ''Does not exist'' | Some m \<Rightarrow> m) @ newline
       @ ''   Suggestion: ''
       @ (case h_suggestion h of None \<Rightarrow> ''Remove or replace'' | Some m \<Rightarrow> m) @ newline
       @ hallucination_lines (Suc i) hs"

definition format_hallucination_errors :: "hallucination_result \<Rightarrow> string" where
  "format_hallucination_errors result =
     (let hallucinations = (case hr_hallucinations result of None \<Rightarrow> [] | Some hs \<Rightarrow> hs)
      in ''Hallucinations Detected:'' @ newline @ hallucination_lines 1 hallucinations)"

subsection \<open>Stage 2: syntax validation\<close>

definition syntax_except :: "exn \<Rightarrow> RequestState \<Rightarrow> RequestState" where
  "syntax_except e state =
     state \<lparr> error_messages :=
               error_messages state @ [''Syntax validation exception: '' @ str_exn e] \<rparr>"

text \<open>
  \<^verbatim>\<open>"corrected_code" in result and result["corrected_code"]\<close>: the key is there and its
  value is neither \<^verbatim>\<open>None\<close> nor the empty string.
\<close>

definition corrected_code_available :: "syntax_result \<Rightarrow> bool" where
  "corrected_code_available result =
     (case sr_corrected_code result of None \<Rightarrow> False | Some c \<Rightarrow> c \<noteq> [])"

fun syntax_validation_attempt ::
  "agents \<Rightarrow> int \<Rightarrow> RequestState \<times> call_log \<Rightarrow> bool option \<times> RequestState \<times> call_log" where
  "syntax_validation_attempt ag attempt (state0, log) =
     (let state = state0 \<lparr> attempts := (attempts state0) \<lparr> syntax_fix := attempt \<rparr> \<rparr>;
          code = generated_code (artifacts state);
          context = ''Generated for: '' @ user_request state;
          log' = log \<lparr> validate_calls := validate_calls log @ [(code, context)] \<rparr>
      in case validate ag (length (validate_calls log)) code context of
           Inl e \<Rightarrow> (None, syntax_except e state, log')
         | Inr result \<Rightarrow>
             (let state1 = state \<lparr> artifacts := (artifacts state) \<lparr> syntax_result := Some result \<rparr> \<rparr>
              in case sr_status result of
                   None \<Rightarrow> (None, syntax_except (KeyError ''status'') state1, log')
                 | Some s \<Rightarrow>
                     if s = ''SYNTAX_VALID'' then (Some True, state1, log')
                     else if corrected_code_available result then
                       (None,
                        state1 \<lparr> artifacts :=
                                   (artifacts state1) \<lparr> generated_code := sr_corrected_code result \<rparr> \<rparr>,
                        log')
                     else
                       (let error_feedback = format_syntax_errors result;
                            state2 = state1 \<lparr> error_messages :=
                                               error_messages state1 @ [error_feedback] \<rparr>
                        in case run_code_generation ag (state2, log') of
                             (ok, s') \<Rightarrow> if \<not> ok then (Some False, s') else (None, s'))))"

fun run_syntax_validation ::
  "agents \<Rightarrow> RequestState \<times> call_log \<Rightarrow> bool \<times> RequestState \<times> call_log" where
  "run_syntax_validation ag (state, log) =
     for_attempts (syntax_validation_attempt ag) [1..MAX_SYNTAX_RETRIES]
       (state \<lparr> current_stage := Stage_SYNTAX_CHECK \<rparr>, log)"

subsection \<open>Stage 3: hallucination detection\<close>

definition hallucination_except :: "exn \<Rightarrow> RequestState \<Rightarrow> RequestState" where
  "hallucination_except e state =
     state \<lparr> error_messages :=
               error_messages state @ [''Hallucination detection exception: '' @ str_exn e] \<rparr>"

fun hallucination_detection_attempt ::
  "agents \<Rightarrow> int \<Rightarrow> RequestState \<times> call_log \<Rightarrow> bool option \<times> RequestState \<times> call_log" where
  "hallucination_detection_attempt ag attempt (state0, log) =
     (let state = state0 \<lparr> attempts := (attempts state0) \<lparr> hallucination_fix := attempt \<rparr> \<rparr>;
          code = generated_code (artifacts state);
          log' = log \<lparr> verify_calls := verify_calls log @ [code] \<rparr>
      in case verify ag (length (verify_calls log)) code of
           Inl e \<Rightarrow> (None, hallucination_except e state, log')
         | Inr result \<Rightarrow>
             (let state1 = state \<lparr> artifacts :=
                                    (artifacts state) \<lparr> hallucination_result := Some result \<rparr> \<rparr>
              in case hr_status result of
                   None \<Rightarrow> (None, hallucination_except (KeyError ''status'') state1, log')
                 | Some s \<Rightarrow>
                     if s = ''VERIFIED'' then (Some True, state1, log')
                     else
                       (let error_feedback = format_hallucination_errors result;
                            state2 = state1 \<lparr> error_messages :=
                                               error_messages state1 @ [error_feedback] \<rparr>
                        in case run_code_generation ag (state2, log') of
                             (ok, s') \<Rightarrow> if \<not> ok then (Some False, s') else (None, s'))))"

fun run_hallucination_detection ::
  "agents \<Rightarrow> RequestState \<times> call_log \<Rightarrow> bool \<times> RequestState \<times> call_log" where
  "run_hallucination_detection ag (state, log) =
     for_attempts (hallucination_detection_attempt ag) [1..MAX_HALLUCINATION_RETRIES]
       (state \<lparr> current_stage := Stage_HALLUCINATION_CHECK \<rparr>, log)"

subsection \<open>Stage 4: code review\<close>

definition review_error_record :: "exn \<Rightarrow> pydict" where
  "review_error_record e = [(''status'', PyStr ''error''), (''error'', PyStr (str_exn e))]"

fun run_code_review :: "agents \<Rightarrow> RequestState \<times> call_log \<Rightarrow> RequestState \<times> call_log" where
  "run_code_review ag (state0, log) =
     (let state = state0 \<lparr> current_stage := Stage_CODE_REVIEW \<rparr>;
          code = generated_code (artifacts state);
          log' = log \<lparr> review_calls := review_calls log @ [(code, user_request state)] \<rparr>
      in case review ag (length (review_calls log)) code (user_request state) of
           Inr result \<Rightarrow>
             (state \<lparr> artifacts := (artifacts state) \<lparr> review_result := Some result \<rparr> \<rparr>, log')
         | Inl e \<Rightarrow>
             (state \<lparr> artifacts :=
                       (artifacts state) \<lparr> review_result := Some (review_error_record e) \<rparr> \<rparr>,
              log'))"

subsection \<open>The response compiler\<close>

definition code_value :: "string option \<Rightarrow> pyval" where
  "code_value c = (case c of None \<Rightarrow> PyNone | Some code \<Rightarrow> PyStr code)"

definition sum_attempts :: "Attempts \<Rightarrow> int" where
  "sum_attempts a = generation a + syntax_fix a + hallucination_fix a"

definition validation_base :: pydict where
  "validation_base =
     [(''syntax'', PyDict [(''status'', PyStr (check_mark @ '' Valid'')),
                           (''details'', PyStr ''Python syntax validated successfully'')]),
      (''hallucination'', PyDict [(''status'', PyStr (check_mark @ '' Verified'')),
                                  (''details'', PyStr ''All imports and functions verified'')])]"

definition compile_success_response :: "RequestState \<Rightarrow> string \<Rightarrow> pydict" where
  "compile_success_response state now =
     (let metadata =
            [(''total_attempts'', PyInt (sum_attempts (attempts state))),
             (''generation_attempts'', PyInt (generation (attempts state))),
             (''syntax_fix_attempts'', PyInt (syntax_fix (attempts state))),
             (''hallucination_fix_attempts'', PyInt (hallucination_fix (attempts state))),
             (''created_at'', PyStr (created_at state)),
             (''completed_at'', PyStr now)]
      in case review_result (artifacts state) of
           Some (entry # entries) \<Rightarrow>
             (let review = entry # entries
              in [(''request_id'', PyStr (request_id state)),
                  (''status'', PyStr ''success''),
                  (''code'', code_value (generated_code (artifacts state))),
                  (''validation'', PyDict (validation_base @
                     [(''review'', PyDict [(''status'', PyStr (check_mark @ '' Completed'')),
                                           (''score'', dict_get review ''score'' (PyStr ''N/A'')),
                                           (''summary'', dict_get review ''summary'' (PyStr []))])])),
                  (''metadata'', PyDict metadata),
                  (''review_details'', PyDict review)])
         | _ \<Rightarrow>
             [(''request_id'', PyStr (request_id state)),
              (''status'', PyStr ''success''),
              (''code'', code_value (generated_code (artifacts state))),
              (''validation'', PyDict validation_base),
              (''metadata'', PyDict metadata)])"

definition compile_failure_response :: "RequestState \<Rightarrow> string \<Rightarrow> pydict" where
  "compile_failure_response state now =
     [(''request_id'', PyStr (request_id state)),
      (''status'', PyStr ''failed''),
      (''error'', PyStr ''Failed to generate valid code''),
      (''errors'', PyList (map PyStr (error_messages state))),
      (''last_attempt'', code_value (generated_code (artifacts state))),
      (''metadata'', PyDict
         [(''failed_at_stage'', PyStr (Stage_value (current_stage state))),
          (''total_attempts'', PyInt (sum_attempts (attempts state))),
          (''generation_attempts'', PyInt (generation (attempts state))),
          (''syntax_fix_attempts'', PyInt (syntax_fix (attempts state))),
          (''hallucination_fix_attempts'', PyInt (hallucination_fix (attempts state))),
          (''created_at'', PyStr (created_at state)),
          (''failed_at'', PyStr now)])]"

subsection \<open>The entry point\<close>

text \<open>
  The orchestrator object: the review switch and the map of all request states.  What
  \<^verbatim>\<open>uuid.uuid4()\<close> and the calls of \<^verbatim>\<open>datetime.now()\<close> return is given by the
  environment.
\<close>

record Orchestrator =
  enable_code_review :: bool
  states :: "string \<rightharpoonup> RequestState"

record environment =
  uuid4 :: string
  now_created :: string
  now_finished :: string

text \<open>
  The body of the \<^verbatim>\<open>try\<close> in \<^verbatim>\<open>generate_code\<close>.  Every statement of it that can
  raise sits inside the \<^verbatim>\<open>try\<close> of its own stage, so the body always yields a value
  (\<open>Inr\<close>); the handler of \<^verbatim>\<open>generate_code\<close> is modelled all the same.
\<close>

definition generate_code_try ::
  "bool \<Rightarrow> agents \<Rightarrow> environment \<Rightarrow> RequestState \<times> call_log
     \<Rightarrow> exn + (pydict \<times> RequestState \<times> call_log)" where
  "generate_code_try with_review ag env s =
     (case run_code_generation ag s of
        (ok1, s1) \<Rightarrow>
          if \<not> ok1 then Inr (compile_failure_response (fst s1) (now_finished env), s1)
          else
            (case run_syntax_validation ag s1 of
               (ok2, s2) \<Rightarrow>
                 if \<not> ok2 then Inr (compile_failure_response (fst s2) (now_finished env), s2)
                 else
                   (case run_hallucination_detection ag s2 of
                      (ok3, s3) \<Rightarrow>
                        if \<not> ok3
                        then Inr (compile_failure_response (fst s3) (now_finished env), s3)
                        else
                          (let s4 = (if with_review then run_code_review ag s3 else s3);
                               state = (fst s4) \<lparr> status := Status_COMPLETED,
                                                  current_stage := Stage_COMPLETED \<rparr>
                           in Inr (compile_success_response state (now_finished env),
                                   state, snd s4)))))"

definition generate_code_except ::
  "exn \<Rightarrow> environment \<Rightarrow> RequestState \<times> call_log \<Rightarrow> pydict \<times> RequestState \<times> call_log" where
  "generate_code_except e env s =
     (let state = (fst s) \<lparr> status := Status_FAILED, current_stage := Stage_FAILED,
                            error_messages :=
                              error_messages (fst s) @ [''Unexpected error: '' @ str_exn e] \<rparr>
      in (compile_failure_response state (now_finished env), state, snd s))"

text \<open>
  \<^verbatim>\<open>generate_code\<close> returns the response; the state object it registered in
  \<^verbatim>\<open>self.states\<close> is the one the stages mutate, so the map ends with the final state.
\<close>

fun generate_code ::
  "agents \<Rightarrow> environment \<Rightarrow> string \<Rightarrow> Orchestrator \<times> call_log
     \<Rightarrow> pydict \<times> Orchestrator \<times> call_log" where
  "generate_code ag env user_req (orch, log) =
     (let state = new_RequestState (uuid4 env) user_req (now_created env);
          outcome = (case generate_code_try (enable_code_review orch) ag env (state, log) of
                       Inr r \<Rightarrow> r
                     | Inl e \<Rightarrow> generate_code_except e env (state, log))
      in case outcome of
           (response, state', log') \<Rightarrow>
             (response, orch \<lparr> states := (states orch)(request_id state \<mapsto> state') \<rparr>, log'))"

text \<open>\<^verbatim>\<open>get_state\<close> reads the map; the orchestrator is returned as it was.\<close>

definition get_state :: "Orchestrator \<Rightarrow> string \<Rightarrow> state_dict option \<times> Orchestrator" where
  "get_state orch rid =
     (case states orch rid of
        Some state \<Rightarrow> (Some (to_dict state), orch)
      | None \<Rightarrow> (None, orch))"

section \<open>The two checking agents of the repository\<close>

text \<open>
  \<^verbatim>\<open>SyntaxCheckerAgent.validate\<close> and \<^verbatim>\<open>HallucinationDetectorAgent.verify\<close> both
  start from \<^verbatim>\<open>ast.parse(code)\<close>.  The Python library is a parameter: what
  \<^verbatim>\<open>ast.parse\<close> does on a string, whether \<^verbatim>\<open>code.strip()\<close> is empty, and the work
  done on the parsed tree (the walk over the import statements with
  \<^verbatim>\<open>importlib\<close>, the reading of the \<^verbatim>\<open>SyntaxError\<close> object and the attempt to
  correct the line).  Of the result dictionaries the keys that the orchestrator reads are
  kept.
\<close>

datatype parse_outcome =
    Parsed
  | Raises_SyntaxError string
  | Raises_Exception string

record python_library =
  ast_parse :: "string \<Rightarrow> parse_outcome"
  strip_is_empty :: "string \<Rightarrow> bool"
  parse_syntax_error :: "string \<Rightarrow> string \<Rightarrow> syntax_error list"
  attempt_correction :: "string \<Rightarrow> syntax_error list \<Rightarrow> string option"
  find_hallucinations :: "string \<Rightarrow> exn + hallucination list"

text \<open>\<^verbatim>\<open>not code or not code.strip()\<close>\<close>

definition no_code :: "python_library \<Rightarrow> string option \<Rightarrow> bool" where
  "no_code py code = (case code of None \<Rightarrow> True | Some c \<Rightarrow> c = [] \<or> strip_is_empty py c)"

definition SyntaxCheckerAgent_validate :: "python_library \<Rightarrow> string option \<Rightarrow> syntax_result" where
  "SyntaxCheckerAgent_validate py code =
     (if no_code py code then
        \<lparr> sr_status = Some ''PARSE_FAILED'',
          sr_errors = Some [\<lparr> se_line = Some 0,
                              se_issue = Some ''Empty or whitespace-only code provided'',
                              se_fix = Some ''Provide valid Python code'' \<rparr>],
          sr_corrected_code = None \<rparr>
      else
        (case ast_parse py (the code) of
           Parsed \<Rightarrow>
             \<lparr> sr_status = Some ''SYNTAX_VALID'', sr_errors = None, sr_corrected_code = None \<rparr>
         | Raises_SyntaxError e \<Rightarrow>
             (let errors = parse_syntax_error py e (the code);
                  corrected_code = attempt_correction py (the code) errors
              in \<lparr> sr_status = Some ''SYNTAX_ERROR'', sr_errors = Some errors,
                    sr_corrected_code = corrected_code \<rparr>)
         | Raises_Exception e \<Rightarrow>
             \<lparr> sr_status = Some ''PARSE_FAILED'',
               sr_errors = Some [\<lparr> se_line = Some 0, se_issue = Some e,
                                   se_fix = Some ''Review code structure'' \<rparr>],
               sr_corrected_code = None \<rparr>))"

definition verification_failed :: hallucination_result where
  "verification_failed = \<lparr> hr_status = Some ''VERIFICATION_FAILED'', hr_hallucinations = Some [] \<rparr>"

definition HallucinationDetectorAgent_verify ::
  "python_library \<Rightarrow> string option \<Rightarrow> hallucination_result" where
  "HallucinationDetectorAgent_verify py code =
     (if no_code py code then verification_failed
      else
        (case ast_parse py (the code) of
           Parsed \<Rightarrow>
             (case find_hallucinations py (the code) of
                Inl e \<Rightarrow> verification_failed
              | Inr hallucinations \<Rightarrow>
                  if hallucinations = []
                  then \<lparr> hr_status = Some ''VERIFIED'', hr_hallucinations = None \<rparr>
                  else \<lparr> hr_status = Some ''HALLUCINATION_DETECTED'',
                         hr_hallucinations = Some hallucinations \<rparr>)
         | Raises_SyntaxError e \<Rightarrow> verification_failed
         | Raises_Exception e \<Rightarrow> verification_failed))"

text \<open>
  The agents as \<^verbatim>\<open>Orchestrator.__init__\<close> wires them: the two checkers of the
  repository, which do not raise, with any generator and any reviewer.
\<close>

definition repository_agents ::
  "python_library \<Rightarrow> (nat \<Rightarrow> generation_request \<Rightarrow> exn + generation_result)
     \<Rightarrow> (nat \<Rightarrow> string option \<Rightarrow> string \<Rightarrow> exn + pydict) \<Rightarrow> agents" where
  "repository_agents py gen reviewer =
     \<lparr> generate = gen,
       validate = (\<lambda>n code context. Inr (SyntaxCheckerAgent_validate py code)),
       verify = (\<lambda>n code. Inr (HallucinationDetectorAgent_verify py code)),
       review = reviewer \<rparr>"

section \<open>Reading a response\<close>

definition response_metadata :: "pydict \<Rightarrow> string \<Rightarrow> pyval" where
  "response_metadata response key =
     (case map_of response ''metadata'' of
        Some (PyDict metadata) \<Rightarrow> dict_get metadata key PyNone
      | _ \<Rightarrow> PyNone)"

definition response_validation :: "pydict \<Rightarrow> string \<Rightarrow> pyval option" where
  "response_validation response key =
     (case map_of response ''validation'' of
        Some (PyDict validation) \<Rightarrow> map_of validation key
      | _ \<Rightarrow> None)"


definition is_failure_payload :: "pydict \<Rightarrow> bool" where
  "is_failure_payload response =
     (map fst response
        = [''request_id'', ''status'', ''error'', ''errors'', ''last_attempt'', ''metadata'']
      \<and> map_of response ''status'' = Some (PyStr ''failed''))"

section \<open>Concrete collaborators\<close>

text \<open>Answers of the agents and whole sets of agents, to run the orchestrator on.\<close>

definition generation_success :: "string \<Rightarrow> generation_result" where
  "generation_success code =
     \<lparr> gr_status = Some ''success'', gr_code = Some code, gr_error = None \<rparr>"

definition generation_error :: "string \<Rightarrow> generation_result" where
  "generation_error msg = \<lparr> gr_status = Some ''error'', gr_code = None, gr_error = Some msg \<rparr>"

definition syntax_valid :: syntax_result where
  "syntax_valid =
     \<lparr> sr_status = Some ''SYNTAX_VALID'', sr_errors = None, sr_corrected_code = None \<rparr>"

definition missing_colon :: syntax_error where
  "missing_colon =
     \<lparr> se_line = Some 1, se_issue = Some ''invalid syntax'', se_fix = Some ''Add colon'' \<rparr>"

definition syntax_invalid :: "string option \<Rightarrow> syntax_result" where
  "syntax_invalid corrected =
     \<lparr> sr_status = Some ''SYNTAX_ERROR'', sr_errors = Some [missing_colon],
       sr_corrected_code = corrected \<rparr>"

definition references_verified :: hallucination_result where
  "references_verified = \<lparr> hr_status = Some ''VERIFIED'', hr_hallucinations = None \<rparr>"

definition fake_module :: hallucination where
  "fake_module =
     \<lparr> h_type = Some ''Library'', h_referenced = Some ''fake_module'',
       h_issue = Some ''does not exist'', h_suggestion = None \<rparr>"

definition references_detected :: hallucination_result where
  "references_detected =
     \<lparr> hr_status = Some ''HALLUCINATION_DETECTED'', hr_hallucinations = Some [fake_module] \<rparr>"

definition review_done :: pydict where
  "review_done = [(''status'', PyStr ''success''), (''score'', PyInt 8),
                  (''summary'', PyStr ''fine'')]"

definition test_env :: environment where
  "test_env = \<lparr> uuid4 = ''id-1'', now_created = ''t0'', now_finished = ''t1'' \<rparr>"

definition other_env :: environment where
  "other_env = \<lparr> uuid4 = ''id-2'', now_created = ''t2'', now_finished = ''t3'' \<rparr>"

definition new_orchestrator :: "bool \<Rightarrow> Orchestrator" where
  "new_orchestrator with_review = \<lparr> enable_code_review = with_review, states = Map.empty \<rparr>"

text \<open>Everything succeeds at once.\<close>

definition first_try_agents :: agents where
  "first_try_agents =
     \<lparr> generate = (\<lambda>n req. Inr (generation_success ''x = 1'')),
       validate = (\<lambda>n code context. Inr syntax_valid),
       verify = (\<lambda>n code. Inr references_verified),
       review = (\<lambda>n code req. Inr review_done) \<rparr>"


text \<open>The validator reports an error without a corrected variant on its first call only.\<close>

definition syntax_retry_agents :: agents where
  "syntax_retry_agents =
     \<lparr> generate = (\<lambda>n req. Inr (generation_success ''x = 1'')),
       validate = (\<lambda>n code context. if n = 0 then Inr (syntax_invalid None) else Inr syntax_valid),
       verify = (\<lambda>n code. Inr references_verified),
       review = (\<lambda>n code req. Inr review_done) \<rparr>"

text \<open>The validator never accepts and never corrects; every generation succeeds.\<close>

definition syntax_never_valid_agents :: agents where
  "syntax_never_valid_agents =
     \<lparr> generate = (\<lambda>n req. Inr (generation_success ''x = 1'')),
       validate = (\<lambda>n code context. Inr (syntax_invalid None)),
       verify = (\<lambda>n code. Inr references_verified),
       review = (\<lambda>n code req. Inr review_done) \<rparr>"

text \<open>The validator hands out a corrected variant on its first call and accepts it next.\<close>

definition auto_correction_agents :: agents where
  "auto_correction_agents =
     \<lparr> generate = (\<lambda>n req. Inr (generation_success ''def f()'')),
       validate = (\<lambda>n code context. if n = 0 then Inr (syntax_invalid (Some ''def f():''))
                                     else Inr syntax_valid),
       verify = (\<lambda>n code. Inr references_verified),
       review = (\<lambda>n code req. Inr review_done) \<rparr>"

text \<open>
  Every generation takes its three attempts, the validator accepts on its third pass and
  the verifier never does.
\<close>

definition worst_case_agents :: agents where
  "worst_case_agents =
     \<lparr> generate = (\<lambda>n req. if n mod 3 = 2 then Inr (generation_success ''x = 1'')
                            else Inr (generation_error ''no code'')),
       validate = (\<lambda>n code context. if n < 2 then Inr (syntax_invalid None) else Inr syntax_valid),
       verify = (\<lambda>n code. Inr references_detected),
       review = (\<lambda>n code req. Inr review_done) \<rparr>"

text \<open>The same generator with a validator and a verifier that never accept.\<close>

definition never_accepting_agents :: agents where
  "never_accepting_agents =
     \<lparr> generate = (\<lambda>n req. if n mod 3 = 2 then Inr (generation_success ''x = 1'')
                            else Inr (generation_error ''no code'')),
       validate = (\<lambda>n code context. Inr (syntax_invalid None)),
       verify = (\<lambda>n code. Inr references_detected),
       review = (\<lambda>n code req. Inr review_done) \<rparr>"


text \<open>The generator raises on every call.\<close>

definition generator_fault_agents :: agents where
  "generator_fault_agents =
     \<lparr> generate = (\<lambda>n req. Inl (Exception ''timeout'')),
       validate = (\<lambda>n code context. Inr syntax_valid),
       verify = (\<lambda>n code. Inr references_verified),
       review = (\<lambda>n code req. Inr review_done) \<rparr>"

text \<open>
  A verifier that does not parse: it answers \<open>VERIFIED\<close> from its second call on, also
  for the code \<open>def f(\<close> that the validator of the same set rejects.
\<close>

definition lax_verifier_agents :: agents where
  "lax_verifier_agents =
     \<lparr> generate = (\<lambda>n req. if n = 0 then Inr (generation_success ''x = 1'')
                            else Inr (generation_success ''def f('')),
       validate = (\<lambda>n code context. if code = Some ''def f('' then Inr (syntax_invalid None)
                                     else Inr syntax_valid),
       verify = (\<lambda>n code. if n = 0 then Inr references_detected else Inr references_verified),
       review = (\<lambda>n code req. Inr review_done) \<rparr>"

text \<open>The review service raises.\<close>

definition review_fault_agents :: agents where
  "review_fault_agents =
     \<lparr> generate = (\<lambda>n req. Inr (generation_success ''x = 1'')),
       validate = (\<lambda>n code context. Inr syntax_valid),
       verify = (\<lambda>n code. Inr references_verified),
       review = (\<lambda>n code req. Inl (Exception ''connection refused'')) \<rparr>"

text \<open>
  A Python library on which every string parses and the module \<open>fake_module\<close> is the
  one that cannot be imported, and a generator that imports it in its first answer only.
\<close>

definition import_checking_python :: python_library where
  "import_checking_python =
     \<lparr> ast_parse = (\<lambda>code. Parsed),
       strip_is_empty = (\<lambda>code. False),
       parse_syntax_error = (\<lambda>e code. []),
       attempt_correction = (\<lambda>code errors. None),
       find_hallucinations = (\<lambda>code. if code = ''import fake_module'' then Inr [fake_module]
                                      else Inr []) \<rparr>"

definition fake_import_generator :: "nat \<Rightarrow> generation_request \<Rightarrow> exn + generation_result" where
  "fake_import_generator n req =
     (if n = 0 then Inr (generation_success ''import fake_module'')
      else Inr (generation_success ''import os''))"

section \<open>Notions for the proofs\<close>

text \<open>What a run of each retrying stage leaves alone.\<close>

definition generation_frame :: "RequestState \<times> call_log \<Rightarrow>
     int \<times> int \<times> (string option \<times> string) list \<times> string option list
       \<times> (string option \<times> string) list \<times> string \<times> pydict option" where
  "generation_frame s =
     (syntax_fix (attempts (fst s)), hallucination_fix (attempts (fst s)),
      validate_calls (snd s), verify_calls (snd s), review_calls (snd s),
      request_id (fst s), review_result (artifacts (fst s)))"

definition syntax_frame :: "RequestState \<times> call_log \<Rightarrow>
     int \<times> string option list \<times> (string option \<times> string) list \<times> string \<times> pydict option" where
  "syntax_frame s =
     (hallucination_fix (attempts (fst s)), verify_calls (snd s), review_calls (snd s),
      request_id (fst s), review_result (artifacts (fst s)))"

definition hallucination_frame :: "RequestState \<times> call_log \<Rightarrow>
     int \<times> (string option \<times> string) list \<times> (string option \<times> string) list \<times> string
       \<times> pydict option" where
  "hallucination_frame s =
     (syntax_fix (attempts (fst s)), validate_calls (snd s), review_calls (snd s),
      request_id (fst s), review_result (artifacts (fst s)))"

text \<open>
  What one pass of a checking stage does to the generation service: nothing, or a run of
  the generation stage with its one to three calls.
\<close>

definition generation_untouched ::
  "RequestState \<times> call_log \<Rightarrow> RequestState \<times> call_log \<Rightarrow> bool" where
  "generation_untouched s s' =
     (generate_calls (snd s') = generate_calls (snd s)
      \<and> generation (attempts (fst s')) = generation (attempts (fst s)))"

definition regenerated :: "RequestState \<times> call_log \<Rightarrow> RequestState \<times> call_log \<Rightarrow> bool" where
  "regenerated s s' =
     (length (generate_calls (snd s)) < length (generate_calls (snd s'))
      \<and> length (generate_calls (snd s')) \<le> length (generate_calls (snd s)) + 3
      \<and> 1 \<le> generation (attempts (fst s')) \<and> generation (attempts (fst s')) \<le> 3)"

definition generation_reentered ::
  "RequestState \<times> call_log \<Rightarrow> RequestState \<times> call_log \<Rightarrow> bool" where
  "generation_reentered s s' =
     (length (generate_calls (snd s)) < length (generate_calls (snd s'))
      \<and> 1 \<le> generation (attempts (fst s')) \<and> generation (attempts (fst s')) \<le> 3)"

section \<open>The retry loop\<close>


declare code_generation_attempt.simps [simp del]
declare syntax_validation_attempt.simps [simp del]
declare hallucination_detection_attempt.simps [simp del]
declare run_code_generation.simps [simp del]
declare run_syntax_validation.simps [simp del]
declare run_hallucination_detection.simps [simp del]

lemma attempts_1_to_3: "[1..(3::int)] = [1, 2, 3]"
  by (simp add: upto.simps)

lemma for_attempts_preserves:
  assumes body: "\<And>n s r s'. body n s = (r, s') \<Longrightarrow> f s' = f s"
  shows "for_attempts body ns s = (ok, s') \<Longrightarrow> f s' = f s"
proof (induction ns arbitrary: s)
  case Nil
  then show ?case by simp
next
  case (Cons n ns)
  obtain r s1 where b: "body n s = (r, s1)" by (cases "body n s")
  have f1: "f s1 = f s" using body [OF b] .
  show ?case
  proof (cases r)
    case None
    with Cons.prems b have "for_attempts body ns s1 = (ok, s')" by simp
    from Cons.IH [OF this] f1 show ?thesis by simp
  next
    case (Some b')
    with Cons.prems b have "s' = s1" by simp
    with f1 show ?thesis by simp
  qed
qed

lemma for_attempts_invariant:
  assumes body: "\<And>n s r s'. body n s = (r, s') \<Longrightarrow> R s s'"
    and refl: "\<And>s. R s s"
    and trans: "\<And>s t u. R s t \<Longrightarrow> R t u \<Longrightarrow> R s u"
  shows "for_attempts body ns s = (ok, s') \<Longrightarrow> R s s'"
proof (induction ns arbitrary: s)
  case Nil
  then show ?case by (simp add: refl)
next
  case (Cons n ns)
  obtain r s1 where b: "body n s = (r, s1)" by (cases "body n s")
  have r1: "R s s1" using body [OF b] .
  show ?case
  proof (cases r)
    case None
    with Cons.prems b have "for_attempts body ns s1 = (ok, s')" by simp
    from Cons.IH [OF this] r1 show ?thesis by (blast intro: trans)
  next
    case (Some b')
    with Cons.prems b have "s' = s1" by simp
    with r1 show ?thesis by simp
  qed
qed

lemma for_attempts_counted:
  assumes body: "\<And>n s r s'. body n s = (r, s') \<Longrightarrow> cnt s' = cnt s + 1 \<and> ix s' = n"
  shows "for_attempts body [1, 2, 3] s = (ok, s') \<Longrightarrow>
           cnt s' = cnt s + ix s' \<and> 1 \<le> ix s' \<and> ix s' \<le> (3::int)"
  by (auto split: prod.splits option.splits dest!: body)

lemma for_attempts_bounded:
  fixes m :: "'s \<Rightarrow> nat"
  assumes body: "\<And>n s r s'. body n s = (r, s') \<Longrightarrow>
                   m s' \<le> m s + c \<and> (r = Some True \<longrightarrow> m s' = m s)"
  shows "for_attempts body ns s = (ok, s') \<Longrightarrow>
           m s' \<le> m s + c * length ns \<and> (ok \<longrightarrow> m s' + c \<le> m s + c * length ns)"
proof (induction ns arbitrary: s)
  case Nil
  then show ?case by auto
next
  case (Cons n ns)
  obtain r s1 where b: "body n s = (r, s1)" by (cases "body n s")
  note b1 = body [OF b]
  show ?case
  proof (cases r)
    case None
    with Cons.prems b have "for_attempts body ns s1 = (ok, s')" by simp
    from Cons.IH [OF this] b1 show ?thesis by auto
  next
    case (Some b')
    with Cons.prems b have "s' = s1" "ok = b'" by simp_all
    with b1 Some show ?thesis by auto
  qed
qed

lemma for_attempts_True:
  "for_attempts body ns s = (True, s') \<Longrightarrow> \<exists>n s0. body n s0 = (Some True, s')"
proof (induction ns arbitrary: s)
  case Nil
  then show ?case by simp
next
  case (Cons n ns)
  obtain r s1 where b: "body n s = (r, s1)" by (cases "body n s")
  show ?case
  proof (cases r)
    case None
    with Cons.prems b have "for_attempts body ns s1 = (True, s')" by simp
    from Cons.IH [OF this] show ?thesis .
  next
    case (Some b')
    with Cons.prems b have "s' = s1" "b' = True" by simp_all
    with b Some show ?thesis by blast
  qed
qed

lemma generation_request_data_attempts [simp]:
  "generation_request_data n (st \<lparr> attempts := a \<rparr>) = generation_request_data n st"
  by (simp add: generation_request_data_def Let_def)

lemma code_generation_attempt_effect:
  assumes "code_generation_attempt ag n s = (r, s')"
  shows "(r = None \<or> r = Some True)
       \<and> attempts (fst s') = (attempts (fst s)) \<lparr> generation := n \<rparr>
       \<and> snd s' = (snd s) \<lparr> generate_calls :=
                     generate_calls (snd s) @ [generation_request_data n (fst s)] \<rparr>
       \<and> (\<exists>msgs. error_messages (fst s') = error_messages (fst s) @ msgs)
       \<and> current_stage (fst s') = current_stage (fst s)
       \<and> request_id (fst s') = request_id (fst s)
       \<and> review_result (artifacts (fst s')) = review_result (artifacts (fst s))"
  using assms
  by (cases s; cases s')
     (auto simp: code_generation_attempt.simps Let_def generation_except_def
           split: sum.splits option.splits if_splits)

lemma run_code_generation_loop:
  "run_code_generation ag s =
     for_attempts (code_generation_attempt ag) [1, 2, 3]
       ((fst s) \<lparr> current_stage := Stage_CODE_GENERATION \<rparr>, snd s)"
  by (cases s) (simp add: run_code_generation.simps MAX_GENERATION_RETRIES_def attempts_1_to_3)

lemma run_code_generation_counts:
  assumes "run_code_generation ag s = (ok, s')"
  shows "int (length (generate_calls (snd s')))
           = int (length (generate_calls (snd s))) + generation (attempts (fst s'))
         \<and> 1 \<le> generation (attempts (fst s')) \<and> generation (attempts (fst s')) \<le> 3"
proof -
  let ?cnt = "\<lambda>s :: RequestState \<times> call_log. int (length (generate_calls (snd s)))"
  let ?ix = "\<lambda>s :: RequestState \<times> call_log. generation (attempts (fst s))"
  have body: "?cnt t' = ?cnt t + 1 \<and> ?ix t' = n"
    if "code_generation_attempt ag n t = (r, t')" for n t r t'
    using code_generation_attempt_effect [OF that] by simp
  from assms have "for_attempts (code_generation_attempt ag) [1, 2, 3]
      ((fst s) \<lparr> current_stage := Stage_CODE_GENERATION \<rparr>, snd s) = (ok, s')"
    by (simp add: run_code_generation_loop)
  from for_attempts_counted [where cnt = ?cnt and ix = ?ix, OF body this]
  show ?thesis by simp
qed

lemma run_code_generation_frame:
  assumes "run_code_generation ag s = (ok, s')"
  shows "generation_frame s' = generation_frame s"
proof -
  have body: "generation_frame t' = generation_frame t"
    if "code_generation_attempt ag n t = (r, t')" for n t r t'
    using code_generation_attempt_effect [OF that] by (simp add: generation_frame_def)
  from assms have "for_attempts (code_generation_attempt ag) [1, 2, 3]
      ((fst s) \<lparr> current_stage := Stage_CODE_GENERATION \<rparr>, snd s) = (ok, s')"
    by (simp add: run_code_generation_loop)
  from for_attempts_preserves [where f = generation_frame, OF body this]
  show ?thesis by (simp add: generation_frame_def)
qed

lemma run_code_generation_effect:
  assumes "run_code_generation ag s = (ok, s')"
  shows "int (length (generate_calls (snd s')))
           = int (length (generate_calls (snd s))) + generation (attempts (fst s'))
       \<and> 1 \<le> generation (attempts (fst s')) \<and> generation (attempts (fst s')) \<le> 3
       \<and> syntax_fix (attempts (fst s')) = syntax_fix (attempts (fst s))
       \<and> hallucination_fix (attempts (fst s')) = hallucination_fix (attempts (fst s))
       \<and> validate_calls (snd s') = validate_calls (snd s)
       \<and> verify_calls (snd s') = verify_calls (snd s)
       \<and> review_calls (snd s') = review_calls (snd s)
       \<and> request_id (fst s') = request_id (fst s)
       \<and> review_result (artifacts (fst s')) = review_result (artifacts (fst s))"
  using run_code_generation_counts [OF assms] run_code_generation_frame [OF assms]
  by (simp add: generation_frame_def)

lemma run_code_generation_regenerated:
  assumes "run_code_generation ag s = (ok, s')"
    and "generate_calls (snd s) = generate_calls (snd s0)"
  shows "regenerated s0 s'"
  using run_code_generation_effect [OF assms(1)] assms(2)
  by (simp add: regenerated_def)

lemma syntax_validation_attempt_effect:
  assumes "syntax_validation_attempt ag n s = (r, s')"
  shows "syntax_fix (attempts (fst s')) = n
       \<and> validate_calls (snd s') = validate_calls (snd s) @
           [(generated_code (artifacts (fst s)), ''Generated for: '' @ user_request (fst s))]
       \<and> hallucination_fix (attempts (fst s')) = hallucination_fix (attempts (fst s))
       \<and> verify_calls (snd s') = verify_calls (snd s)
       \<and> review_calls (snd s') = review_calls (snd s)
       \<and> request_id (fst s') = request_id (fst s)
       \<and> review_result (artifacts (fst s')) = review_result (artifacts (fst s))
       \<and> (generation_untouched s s' \<or> regenerated s s')
       \<and> (r = Some True \<longrightarrow> generation_untouched s s')"
  using assms
  by (cases s; cases s')
     (auto simp: syntax_validation_attempt.simps Let_def syntax_except_def
                 generation_untouched_def
           split: sum.splits option.splits if_splits prod.splits
           dest!: run_code_generation_effect
           simp: regenerated_def)

lemma generation_touch_trans:
  assumes "generation_untouched s t \<or> generation_reentered s t"
    and "generation_untouched t u \<or> generation_reentered t u"
  shows "generation_untouched s u \<or> generation_reentered s u"
  using assms by (auto simp: generation_untouched_def generation_reentered_def)

lemma regenerated_reentered: "regenerated s s' \<Longrightarrow> generation_reentered s s'"
  by (simp add: regenerated_def generation_reentered_def)

lemma run_syntax_validation_loop:
  "run_syntax_validation ag s =
     for_attempts (syntax_validation_attempt ag) [1, 2, 3]
       ((fst s) \<lparr> current_stage := Stage_SYNTAX_CHECK \<rparr>, snd s)"
  by (cases s) (simp add: run_syntax_validation.simps MAX_SYNTAX_RETRIES_def attempts_1_to_3)

lemma run_syntax_validation_effect:
  assumes "run_syntax_validation ag s = (ok, s')"
  shows "int (length (validate_calls (snd s')))
           = int (length (validate_calls (snd s))) + syntax_fix (attempts (fst s'))
       \<and> 1 \<le> syntax_fix (attempts (fst s')) \<and> syntax_fix (attempts (fst s')) \<le> 3
       \<and> hallucination_fix (attempts (fst s')) = hallucination_fix (attempts (fst s))
       \<and> verify_calls (snd s') = verify_calls (snd s)
       \<and> review_calls (snd s') = review_calls (snd s)
       \<and> request_id (fst s') = request_id (fst s)
       \<and> review_result (artifacts (fst s')) = review_result (artifacts (fst s))
       \<and> (generation_untouched s s' \<or> generation_reentered s s')
       \<and> length (generate_calls (snd s')) \<le> length (generate_calls (snd s)) + 9
       \<and> (ok \<longrightarrow> length (generate_calls (snd s')) \<le> length (generate_calls (snd s)) + 6)"
proof -
  let ?s0 = "((fst s) \<lparr> current_stage := Stage_SYNTAX_CHECK \<rparr>, snd s)"
  let ?cnt = "\<lambda>s :: RequestState \<times> call_log. int (length (validate_calls (snd s)))"
  let ?ix = "\<lambda>s :: RequestState \<times> call_log. syntax_fix (attempts (fst s))"
  let ?m = "\<lambda>s :: RequestState \<times> call_log. length (generate_calls (snd s))"
  let ?R = "\<lambda>s s'. generation_untouched s s' \<or> generation_reentered s s'"
  from assms have loop: "for_attempts (syntax_validation_attempt ag) [1, 2, 3] ?s0 = (ok, s')"
    by (simp add: run_syntax_validation_loop)
  have counted: "?cnt t' = ?cnt t + 1 \<and> ?ix t' = n"
    if "syntax_validation_attempt ag n t = (r, t')" for n t r t'
    using syntax_validation_attempt_effect [OF that] by simp
  have frame: "syntax_frame t' = syntax_frame t"
    if "syntax_validation_attempt ag n t = (r, t')" for n t r t'
    using syntax_validation_attempt_effect [OF that] by (simp add: syntax_frame_def)
  have touch: "?R t t'"
    if "syntax_validation_attempt ag n t = (r, t')" for n t r t'
    using syntax_validation_attempt_effect [OF that] by (auto dest: regenerated_reentered)
  have bound: "?m t' \<le> ?m t + 3 \<and> (r = Some True \<longrightarrow> ?m t' = ?m t)"
    if "syntax_validation_attempt ag n t = (r, t')" for n t r t'
    using syntax_validation_attempt_effect [OF that]
    by (auto simp: regenerated_def generation_untouched_def)
  have 1: "?cnt s' = ?cnt ?s0 + ?ix s' \<and> 1 \<le> ?ix s' \<and> ?ix s' \<le> 3"
    using for_attempts_counted [where cnt = ?cnt and ix = ?ix, OF counted loop] .
  have 2: "syntax_frame s' = syntax_frame ?s0"
    using for_attempts_preserves [where f = syntax_frame, OF frame loop] .
  have 3: "?R ?s0 s'"
    by (rule for_attempts_invariant [where R = ?R, OF touch _ _ loop])
       (auto simp: generation_untouched_def generation_reentered_def)
  have 4: "?m s' \<le> ?m ?s0 + 3 * length [1, 2, 3::int]
           \<and> (ok \<longrightarrow> ?m s' + 3 \<le> ?m ?s0 + 3 * length [1, 2, 3::int])"
    using for_attempts_bounded [where m = ?m and c = 3, OF bound loop] .
  from 1 2 3 4 show ?thesis
    by (auto simp: syntax_frame_def generation_untouched_def generation_reentered_def)
qed

lemma hallucination_detection_attempt_effect:
  assumes "hallucination_detection_attempt ag n s = (r, s')"
  shows "hallucination_fix (attempts (fst s')) = n
       \<and> verify_calls (snd s') = verify_calls (snd s) @ [generated_code (artifacts (fst s))]
       \<and> syntax_fix (attempts (fst s')) = syntax_fix (attempts (fst s))
       \<and> validate_calls (snd s') = validate_calls (snd s)
       \<and> review_calls (snd s') = review_calls (snd s)
       \<and> request_id (fst s') = request_id (fst s)
       \<and> review_result (artifacts (fst s')) = review_result (artifacts (fst s))
       \<and> (generation_untouched s s' \<or> regenerated s s')
       \<and> (r = Some True \<longrightarrow> generation_untouched s s'
             \<and> (\<exists>k result. verify ag k (generated_code (artifacts (fst s'))) = Inr result
                   \<and> hr_status result = Some ''VERIFIED''))"
  using assms
  by (cases s; cases s')
     (auto simp: hallucination_detection_attempt.simps Let_def hallucination_except_def
                 generation_untouched_def
           split: sum.splits option.splits if_splits prod.splits
           dest!: run_code_generation_effect
           simp: regenerated_def)

lemma run_hallucination_detection_loop:
  "run_hallucination_detection ag s =
     for_attempts (hallucination_detection_attempt ag) [1, 2, 3]
       ((fst s) \<lparr> current_stage := Stage_HALLUCINATION_CHECK \<rparr>, snd s)"
  by (cases s)
     (simp add: run_hallucination_detection.simps MAX_HALLUCINATION_RETRIES_def attempts_1_to_3)

lemma run_hallucination_detection_effect:
  assumes "run_hallucination_detection ag s = (ok, s')"
  shows "int (length (verify_calls (snd s')))
           = int (length (verify_calls (snd s))) + hallucination_fix (attempts (fst s'))
       \<and> 1 \<le> hallucination_fix (attempts (fst s')) \<and> hallucination_fix (attempts (fst s')) \<le> 3
       \<and> syntax_fix (attempts (fst s')) = syntax_fix (attempts (fst s))
       \<and> validate_calls (snd s') = validate_calls (snd s)
       \<and> review_calls (snd s') = review_calls (snd s)
       \<and> request_id (fst s') = request_id (fst s)
       \<and> review_result (artifacts (fst s')) = review_result (artifacts (fst s))
       \<and> (generation_untouched s s' \<or> generation_reentered s s')
       \<and> length (generate_calls (snd s')) \<le> length (generate_calls (snd s)) + 9"
proof -
  let ?s0 = "((fst s) \<lparr> current_stage := Stage_HALLUCINATION_CHECK \<rparr>, snd s)"
  let ?cnt = "\<lambda>s :: RequestState \<times> call_log. int (length (verify_calls (snd s)))"
  let ?ix = "\<lambda>s :: RequestState \<times> call_log. hallucination_fix (attempts (fst s))"
  let ?m = "\<lambda>s :: RequestState \<times> call_log. length (generate_calls (snd s))"
  let ?R = "\<lambda>s s'. generation_untouched s s' \<or> generation_reentered s s'"
  from assms
  have loop: "for_attempts (hallucination_detection_attempt ag) [1, 2, 3] ?s0 = (ok, s')"
    by (simp add: run_hallucination_detection_loop)
  have counted: "?cnt t' = ?cnt t + 1 \<and> ?ix t' = n"
    if "hallucination_detection_attempt ag n t = (r, t')" for n t r t'
    using hallucination_detection_attempt_effect [OF that] by simp
  have frame: "hallucination_frame t' = hallucination_frame t"
    if "hallucination_detection_attempt ag n t = (r, t')" for n t r t'
    using hallucination_detection_attempt_effect [OF that] by (simp add: hallucination_frame_def)
  have touch: "?R t t'"
    if "hallucination_detection_attempt ag n t = (r, t')" for n t r t'
    using hallucination_detection_attempt_effect [OF that] by (auto dest: regenerated_reentered)
  have bound: "?m t' \<le> ?m t + 3 \<and> (r = Some True \<longrightarrow> ?m t' = ?m t)"
    if "hallucination_detection_attempt ag n t = (r, t')" for n t r t'
    using hallucination_detection_attempt_effect [OF that]
    by (auto simp: regenerated_def generation_untouched_def)
  have 1: "?cnt s' = ?cnt ?s0 + ?ix s' \<and> 1 \<le> ?ix s' \<and> ?ix s' \<le> 3"
    using for_attempts_counted [where cnt = ?cnt and ix = ?ix, OF counted loop] .
  have 2: "hallucination_frame s' = hallucination_frame ?s0"
    using for_attempts_preserves [where f = hallucination_frame, OF frame loop] .
  have 3: "?R ?s0 s'"
    by (rule for_attempts_invariant [where R = ?R, OF touch _ _ loop])
       (auto simp: generation_untouched_def generation_reentered_def)
  have 4: "?m s' \<le> ?m ?s0 + 3 * length [1, 2, 3::int]
           \<and> (ok \<longrightarrow> ?m s' + 3 \<le> ?m ?s0 + 3 * length [1, 2, 3::int])"
    using for_attempts_bounded [where m = ?m and c = 3, OF bound loop] .
  from 1 2 3 4 show ?thesis
    by (auto simp: hallucination_frame_def generation_untouched_def generation_reentered_def)
qed

lemma run_hallucination_detection_verified:
  assumes "run_hallucination_detection ag s = (True, s')"
  shows "\<exists>k result. verify ag k (generated_code (artifacts (fst s'))) = Inr result
           \<and> hr_status result = Some ''VERIFIED''"
proof -
  from assms
  have "for_attempts (hallucination_detection_attempt ag) [1, 2, 3]
          ((fst s) \<lparr> current_stage := Stage_HALLUCINATION_CHECK \<rparr>, snd s) = (True, s')"
    by (simp add: run_hallucination_detection_loop)
  from for_attempts_True [OF this]
  obtain n s0 where "hallucination_detection_attempt ag n s0 = (Some True, s')" by blast
  from hallucination_detection_attempt_effect [OF this] show ?thesis by simp
qed

section \<open>The pipeline as a whole\<close>

declare run_code_review.simps [simp del]
declare generate_code.simps [simp del]

lemma run_code_review_effect:
  assumes "run_code_review ag s = s'"
  shows "attempts (fst s') = attempts (fst s)
       \<and> generated_code (artifacts (fst s')) = generated_code (artifacts (fst s))
       \<and> request_id (fst s') = request_id (fst s)
       \<and> generate_calls (snd s') = generate_calls (snd s)
       \<and> validate_calls (snd s') = validate_calls (snd s)
       \<and> verify_calls (snd s') = verify_calls (snd s)
       \<and> review_result (artifacts (fst s')) =
           (case review ag (length (review_calls (snd s))) (generated_code (artifacts (fst s)))
                   (user_request (fst s)) of
              Inr result \<Rightarrow> Some result
            | Inl e \<Rightarrow> Some (review_error_record e))"
  using assms
  by (cases s) (auto simp: run_code_review.simps Let_def split: sum.splits)

lemma generate_code_cases [consumes 1, case_names generation_failed syntax_failed
    hallucination_failed completed]:
  assumes run: "generate_code ag env req (orch, log) = (resp, orch', log')"
  obtains
    (generation_failed) s1 where
      "run_code_generation ag (new_RequestState (uuid4 env) req (now_created env), log) = (False, s1)"
      "resp = compile_failure_response (fst s1) (now_finished env)"
      "orch' = orch \<lparr> states := (states orch)(uuid4 env \<mapsto> fst s1) \<rparr>"
      "log' = snd s1"
  | (syntax_failed) s1 s2 where
      "run_code_generation ag (new_RequestState (uuid4 env) req (now_created env), log) = (True, s1)"
      "run_syntax_validation ag s1 = (False, s2)"
      "resp = compile_failure_response (fst s2) (now_finished env)"
      "orch' = orch \<lparr> states := (states orch)(uuid4 env \<mapsto> fst s2) \<rparr>"
      "log' = snd s2"
  | (hallucination_failed) s1 s2 s3 where
      "run_code_generation ag (new_RequestState (uuid4 env) req (now_created env), log) = (True, s1)"
      "run_syntax_validation ag s1 = (True, s2)"
      "run_hallucination_detection ag s2 = (False, s3)"
      "resp = compile_failure_response (fst s3) (now_finished env)"
      "orch' = orch \<lparr> states := (states orch)(uuid4 env \<mapsto> fst s3) \<rparr>"
      "log' = snd s3"
  | (completed) s1 s2 s3 s4 where
      "run_code_generation ag (new_RequestState (uuid4 env) req (now_created env), log) = (True, s1)"
      "run_syntax_validation ag s1 = (True, s2)"
      "run_hallucination_detection ag s2 = (True, s3)"
      "s4 = (if enable_code_review orch then run_code_review ag s3 else s3)"
      "resp = compile_success_response
                ((fst s4) \<lparr> status := Status_COMPLETED, current_stage := Stage_COMPLETED \<rparr>)
                (now_finished env)"
      "orch' = orch \<lparr> states := (states orch)(uuid4 env \<mapsto>
                 (fst s4) \<lparr> status := Status_COMPLETED, current_stage := Stage_COMPLETED \<rparr>) \<rparr>"
      "log' = snd s4"
proof -
  let ?init = "(new_RequestState (uuid4 env) req (now_created env), log)"
  have rid: "request_id (new_RequestState (uuid4 env) req (now_created env)) = uuid4 env"
    by (simp add: new_RequestState_def)
  obtain ok1 s1 where 1: "run_code_generation ag ?init = (ok1, s1)"
    by (cases "run_code_generation ag ?init")
  obtain ok2 s2 where 2: "run_syntax_validation ag s1 = (ok2, s2)"
    by (cases "run_syntax_validation ag s1")
  obtain ok3 s3 where 3: "run_hallucination_detection ag s2 = (ok3, s3)"
    by (cases "run_hallucination_detection ag s2")
  show thesis
  proof (cases ok1)
    case False
    with run 1 rid show thesis
      by (intro generation_failed [of s1])
         (auto simp: generate_code.simps generate_code_try_def Let_def split: prod.splits)
  next
    case ok1: True
    show thesis
    proof (cases ok2)
      case False
      with run 1 2 ok1 rid show thesis
        by (intro syntax_failed [of s1 s2])
           (auto simp: generate_code.simps generate_code_try_def Let_def split: prod.splits)
    next
      case ok2: True
      show thesis
      proof (cases ok3)
        case False
        with run 1 2 3 ok1 ok2 rid show thesis
          by (intro hallucination_failed [of s1 s2 s3])
             (auto simp: generate_code.simps generate_code_try_def Let_def split: prod.splits)
      next
        case True
        with run 1 2 3 ok1 ok2 rid show thesis
          by (intro completed [of s1 s2 s3 "if enable_code_review orch then run_code_review ag s3 else s3"])
             (auto simp: generate_code.simps generate_code_try_def Let_def split: prod.splits)
      qed
    qed
  qed
qed




lemma generate_code_states:
  "\<exists>st'. fst (snd (generate_code ag env req (orch, log)))
            = orch \<lparr> states := (states orch)(uuid4 env \<mapsto> st') \<rparr>
         \<and> request_id st' = uuid4 env"
proof -
  let ?init = "(new_RequestState (uuid4 env) req (now_created env), log)"
  have rid: "request_id (fst ?init) = uuid4 env"
    by (simp add: new_RequestState_def)
  obtain resp orch' log' where run: "generate_code ag env req (orch, log) = (resp, orch', log')"
    by (cases "generate_code ag env req (orch, log)")
  from run have "\<exists>st'. orch' = orch \<lparr> states := (states orch)(uuid4 env \<mapsto> st') \<rparr>
                   \<and> request_id st' = uuid4 env"
  proof (cases rule: generate_code_cases)
    case (generation_failed s1)
    with run_code_generation_effect [OF generation_failed(1)] rid show ?thesis by auto
  next
    case (syntax_failed s1 s2)
    with run_code_generation_effect [OF syntax_failed(1)]
      run_syntax_validation_effect [OF syntax_failed(2)] rid
    show ?thesis by auto
  next
    case (hallucination_failed s1 s2 s3)
    with run_code_generation_effect [OF hallucination_failed(1)]
      run_syntax_validation_effect [OF hallucination_failed(2)]
      run_hallucination_detection_effect [OF hallucination_failed(3)] rid
    show ?thesis by auto
  next
    case (completed s1 s2 s3 s4)
    have "request_id (fst s4) = request_id (fst s3)"
      using completed(4) run_code_review_effect [of ag s3 s4] by (simp split: if_splits)
    with completed run_code_generation_effect [OF completed(1)]
      run_syntax_validation_effect [OF completed(2)]
      run_hallucination_detection_effect [OF completed(3)] rid
    show ?thesis by auto
  qed
  with run show ?thesis by simp
qed

lemma compile_success_response_review:
  "response_validation (compile_success_response st now) ''review'' =
     (if dict_truthy (review_result (artifacts st))
      then Some (PyDict [(''status'', PyStr (check_mark @ '' Completed'')),
                         (''score'', dict_get (the (review_result (artifacts st))) ''score''
                                       (PyStr ''N/A'')),
                         (''summary'', dict_get (the (review_result (artifacts st))) ''summary''
                                         (PyStr []))])
      else None)"
  by (simp add: response_validation_def compile_success_response_def Let_def dict_truthy_def
        validation_base_def split: option.splits list.splits)

lemma compile_failure_response_status:
  "map_of (compile_failure_response st now) ''status'' = Some (PyStr ''failed'')"
  by (simp add: compile_failure_response_def)

lemma generate_code_stored:
  assumes "generate_code ag env req (orch, log) = (resp, orch', log')"
    and "map_of resp ''status'' = Some (PyStr ''success'')"
  shows "\<exists>st'. fst (get_state orch' (uuid4 env)) = Some (to_dict st')
           \<and> resp = compile_success_response st' (now_finished env)
           \<and> status st' = Status_COMPLETED"
  using assms(1)
proof (cases rule: generate_code_cases)
  case (completed s1 s2 s3 s4)
  let ?st = "(fst s4) \<lparr> status := Status_COMPLETED, current_stage := Stage_COMPLETED \<rparr>"
  from completed(5,6)
  have "fst (get_state orch' (uuid4 env)) = Some (to_dict ?st)
          \<and> resp = compile_success_response ?st (now_finished env)
          \<and> status ?st = Status_COMPLETED"
    by (simp add: get_state_def)
  then show ?thesis by blast
qed (use assms(2) in \<open>simp_all add: compile_failure_response_status\<close>)

lemma compile_success_response_code:
  "map_of (compile_success_response st now) ''code''
     = Some (code_value (generated_code (artifacts st)))"
  by (simp add: compile_success_response_def Let_def split: option.splits list.splits)

lemma compile_success_response_attempts:
  "response_metadata (compile_success_response st now) ''generation_attempts''
     = PyInt (generation (attempts st))"
  "response_metadata (compile_success_response st now) ''syntax_fix_attempts''
     = PyInt (syntax_fix (attempts st))"
  "response_metadata (compile_success_response st now) ''hallucination_fix_attempts''
     = PyInt (hallucination_fix (attempts st))"
  by (simp_all add: response_metadata_def dict_get_def compile_success_response_def Let_def
        split: option.splits list.splits)


lemma verified_implies_valid:
  assumes "hr_status (HallucinationDetectorAgent_verify py code) = Some ''VERIFIED''"
  shows "sr_status (SyntaxCheckerAgent_validate py code) = Some ''SYNTAX_VALID''
         \<and> (\<exists>c. code = Some c)"
  using assms
  by (auto simp: HallucinationDetectorAgent_verify_def SyntaxCheckerAgent_validate_def
        verification_failed_def no_code_def
        split: if_splits parse_outcome.splits sum.splits option.splits)

lemma generation_calls_of_request:
  "length (generate_calls (snd (snd (generate_code ag env req (orch, log)))))
     \<le> length (generate_calls log) + 18"
proof -
  obtain resp orch' log' where run: "generate_code ag env req (orch, log) = (resp, orch', log')"
    by (cases "generate_code ag env req (orch, log)")
  from run have "length (generate_calls log') \<le> length (generate_calls log) + 18"
  proof (cases rule: generate_code_cases)
    case (generation_failed s1)
    with run_code_generation_effect [OF generation_failed(1)] show ?thesis by simp
  next
    case (syntax_failed s1 s2)
    with run_code_generation_effect [OF syntax_failed(1)]
      run_syntax_validation_effect [OF syntax_failed(2)]
    show ?thesis by simp
  next
    case (hallucination_failed s1 s2 s3)
    with run_code_generation_effect [OF hallucination_failed(1)]
      run_syntax_validation_effect [OF hallucination_failed(2)]
      run_hallucination_detection_effect [OF hallucination_failed(3)]
    show ?thesis by simp
  next
    case (completed s1 s2 s3 s4)
    have "generate_calls (snd s4) = generate_calls (snd s3)"
      using completed(4) run_code_review_effect [of ag s3 s4] by (simp split: if_splits)
    with completed(7) run_code_generation_effect [OF completed(1)]
      run_syntax_validation_effect [OF completed(2)]
      run_hallucination_detection_effect [OF completed(3)]
    show ?thesis by simp
  qed
  with run show ?thesis by simp
qed

section \<open>Runs on concrete collaborators\<close>

text \<open>
  Everything succeeds at the first try: the response is a success and each of the three
  counters is 1.
\<close>

lemma first_try_run:
  "map_of (fst (generate_code first_try_agents test_env ''add two numbers''
                  (new_orchestrator True, no_calls))) ''status'' = Some (PyStr ''success'')
   \<and> response_metadata (fst (generate_code first_try_agents test_env ''add two numbers''
        (new_orchestrator True, no_calls))) ''generation_attempts'' = PyInt 1
   \<and> response_metadata (fst (generate_code first_try_agents test_env ''add two numbers''
        (new_orchestrator True, no_calls))) ''syntax_fix_attempts'' = PyInt 1
   \<and> response_metadata (fst (generate_code first_try_agents test_env ''add two numbers''
        (new_orchestrator True, no_calls))) ''hallucination_fix_attempts'' = PyInt 1
   \<and> response_metadata (fst (generate_code first_try_agents test_env ''add two numbers''
        (new_orchestrator True, no_calls))) ''total_attempts'' = PyInt 3"
  by (intro conjI; code_simp)

text \<open>
  The generator raises three times: the failure is reported at \<open>code_generation\<close> with
  three generation attempts and the three messages in the error list.
\<close>

lemma generator_fault_run:
  "is_failure_payload (fst (generate_code generator_fault_agents test_env ''add two numbers''
                              (new_orchestrator True, no_calls)))
   \<and> response_metadata (fst (generate_code generator_fault_agents test_env ''add two numbers''
        (new_orchestrator True, no_calls))) ''failed_at_stage'' = PyStr ''code_generation''
   \<and> response_metadata (fst (generate_code generator_fault_agents test_env ''add two numbers''
        (new_orchestrator True, no_calls))) ''generation_attempts'' = PyInt 3
   \<and> map_of (fst (generate_code generator_fault_agents test_env ''add two numbers''
                  (new_orchestrator True, no_calls))) ''errors''
       = Some (PyList [PyStr ''Generation exception: timeout'',
                       PyStr ''Generation exception: timeout'',
                       PyStr ''Generation exception: timeout''])"
  by (intro conjI; code_simp)

text \<open>
  The validator corrects the code on its first pass and accepts on its second: the syntax
  counter is 2 and the generation service was called once.
\<close>

lemma auto_correction_run:
  "map_of (fst (generate_code auto_correction_agents test_env ''add two numbers''
                  (new_orchestrator True, no_calls))) ''status'' = Some (PyStr ''success'')
   \<and> map_of (fst (generate_code auto_correction_agents test_env ''add two numbers''
                  (new_orchestrator True, no_calls))) ''code'' = Some (PyStr ''def f():'')
   \<and> response_metadata (fst (generate_code auto_correction_agents test_env ''add two numbers''
        (new_orchestrator True, no_calls))) ''syntax_fix_attempts'' = PyInt 2
   \<and> response_metadata (fst (generate_code auto_correction_agents test_env ''add two numbers''
        (new_orchestrator True, no_calls))) ''generation_attempts'' = PyInt 1
   \<and> length (generate_calls (snd (snd (generate_code auto_correction_agents test_env
        ''add two numbers'' (new_orchestrator True, no_calls))))) = 1"
  by (intro conjI; code_simp)

text \<open>
  The orchestrator does not run the syntax stage again after a regeneration in stage 3.
  With a verifier that answers \<open>VERIFIED\<close> without parsing, the run succeeds with a code
  that the validator of the same set rejects; the verifier of the repository excludes this
  by parsing the code itself.
\<close>

lemma regeneration_is_not_revalidated:
  "map_of (fst (generate_code lax_verifier_agents test_env ''add two numbers''
                  (new_orchestrator True, no_calls))) ''status'' = Some (PyStr ''success'')
   \<and> map_of (fst (generate_code lax_verifier_agents test_env ''add two numbers''
                  (new_orchestrator True, no_calls))) ''code'' = Some (PyStr ''def f('')
   \<and> length (validate_calls (snd (snd (generate_code lax_verifier_agents test_env
        ''add two numbers'' (new_orchestrator True, no_calls))))) = 1
   \<and> validate lax_verifier_agents 1 (Some ''def f('') ''Generated for: add two numbers''
       = Inr (syntax_invalid None)"
proof -
  have "validate lax_verifier_agents 1 (Some ''def f('') ''Generated for: add two numbers''
       = Inr (syntax_invalid None)"
    by (simp add: lax_verifier_agents_def)
  moreover have
    "map_of (fst (generate_code lax_verifier_agents test_env ''add two numbers''
                  (new_orchestrator True, no_calls))) ''status'' = Some (PyStr ''success'')"
    "map_of (fst (generate_code lax_verifier_agents test_env ''add two numbers''
                  (new_orchestrator True, no_calls))) ''code'' = Some (PyStr ''def f('')"
    "length (validate_calls (snd (snd (generate_code lax_verifier_agents test_env
        ''add two numbers'' (new_orchestrator True, no_calls))))) = 1"
    by code_simp+
  ultimately show ?thesis by simp
qed

section \<open>The claims\<close>



text \<open>
  C9.  \<^verbatim>\<open>get_state\<close> changes nothing, so asking again gives the same answer; an
  identifier that is not in the map gives \<open>None\<close>; after \<^verbatim>\<open>generate_code\<close> has
  returned, the request is found under its identifier, and a later request with another
  identifier leaves its snapshot as it was.
\<close>

theorem get_state_idempotent:
  "snd (get_state orch rid) = orch
   \<and> get_state (snd (get_state orch rid)) rid = get_state orch rid
   \<and> (rid \<notin> dom (states orch) \<longrightarrow> fst (get_state orch rid) = None)
   \<and> (\<exists>snapshot. fst (get_state (fst (snd (generate_code ag env req (orch, log)))) (uuid4 env))
                     = Some snapshot
          \<and> sd_request_id snapshot = uuid4 env)
   \<and> (\<forall>ag2 env2 req2 log2. uuid4 env2 \<noteq> uuid4 env \<longrightarrow>
          fst (get_state
                 (fst (snd (generate_code ag2 env2 req2
                              (fst (snd (generate_code ag env req (orch, log))), log2))))
                 (uuid4 env))
            = fst (get_state (fst (snd (generate_code ag env req (orch, log)))) (uuid4 env)))"
proof -
  obtain st' where 1: "fst (snd (generate_code ag env req (orch, log)))
            = orch \<lparr> states := (states orch)(uuid4 env \<mapsto> st') \<rparr>" "request_id st' = uuid4 env"
    using generate_code_states by blast
  have later: "fst (get_state (fst (snd (generate_code ag2 env2 req2 (orch2, log2)))) r)
                 = fst (get_state orch2 r)"
    if "uuid4 env2 \<noteq> r" for ag2 env2 req2 log2 orch2 r
  proof -
    obtain st2 where "fst (snd (generate_code ag2 env2 req2 (orch2, log2)))
            = orch2 \<lparr> states := (states orch2)(uuid4 env2 \<mapsto> st2) \<rparr>"
      using generate_code_states by blast
    with that show ?thesis by (auto simp: get_state_def split: option.splits)
  qed
  have "snd (get_state orch rid) = orch"
    by (simp add: get_state_def split: option.splits)
  moreover have "get_state (snd (get_state orch rid)) rid = get_state orch rid"
    by (simp add: get_state_def split: option.splits)
  moreover have "rid \<notin> dom (states orch) \<longrightarrow> fst (get_state orch rid) = None"
    by (auto simp: get_state_def split: option.splits)
  moreover have "\<exists>snapshot.
      fst (get_state (fst (snd (generate_code ag env req (orch, log)))) (uuid4 env)) = Some snapshot
      \<and> sd_request_id snapshot = uuid4 env"
    using 1 by (simp add: get_state_def to_dict_def)
  ultimately show ?thesis using later by blast
qed

theorem get_state_idempotent_witness:
  "''id-9'' \<notin> dom (states (new_orchestrator True))
   \<and> fst (get_state (new_orchestrator True) ''id-9'') = None
   \<and> uuid4 other_env \<noteq> uuid4 test_env
   \<and> fst (get_state
            (fst (snd (generate_code syntax_never_valid_agents other_env ''subtract''
                         (fst (snd (generate_code first_try_agents test_env ''add''
                                      (new_orchestrator True, no_calls))), no_calls))))
            (uuid4 test_env))
       = fst (get_state (fst (snd (generate_code first_try_agents test_env ''add''
                                     (new_orchestrator True, no_calls)))) (uuid4 test_env))"
  using get_state_idempotent [of "new_orchestrator True" "''id-9''" first_try_agents test_env
      "''add''" no_calls]
  by (simp add: new_orchestrator_def test_env_def other_env_def)

text \<open>
  C10.  In a success payload, whenever the stored review result is a non-empty
  dictionary, the validation section has a review entry whose status is the fixed text
  \<open>Completed\<close> after the check mark; when the stored result is the error record written
  after a fault of the review service, the entry has the score \<open>N/A\<close> and an empty
  summary.
\<close>

theorem review_entry_status_is_fixed:
  assumes "generate_code ag env req (orch, log) = (resp, orch', log')"
    and "map_of resp ''status'' = Some (PyStr ''success'')"
  shows "\<exists>snapshot. fst (get_state orch' (uuid4 env)) = Some snapshot
           \<and> (dict_truthy (review_result (sd_artifacts snapshot)) \<longrightarrow>
                (\<exists>score summary. response_validation resp ''review'' =
                   Some (PyDict [(''status'', PyStr (check_mark @ '' Completed'')),
                                 (''score'', score), (''summary'', summary)])))
           \<and> (\<forall>e. review_result (sd_artifacts snapshot) = Some (review_error_record e) \<longrightarrow>
                response_validation resp ''review'' =
                   Some (PyDict [(''status'', PyStr (check_mark @ '' Completed'')),
                                 (''score'', PyStr ''N/A''), (''summary'', PyStr [])]))"
proof -
  from generate_code_stored [OF assms]
  obtain st' where st': "fst (get_state orch' (uuid4 env)) = Some (to_dict st')"
    "resp = compile_success_response st' (now_finished env)" by blast
  have "dict_truthy (Some (review_error_record e))" for e
    by (simp add: dict_truthy_def review_error_record_def)
  moreover have "dict_get (review_error_record e) ''score'' (PyStr ''N/A'') = PyStr ''N/A''"
    "dict_get (review_error_record e) ''summary'' (PyStr []) = PyStr []" for e
    by (simp_all add: dict_get_def review_error_record_def)
  ultimately show ?thesis
    using st' by (auto simp: compile_success_response_review to_dict_def)
qed

theorem review_entry_status_is_fixed_witness:
  "map_of (fst (generate_code review_fault_agents test_env ''add two numbers''
                  (new_orchestrator True, no_calls))) ''status'' = Some (PyStr ''success'')
   \<and> review_result (sd_artifacts (the (fst (get_state
         (fst (snd (generate_code review_fault_agents test_env ''add two numbers''
                      (new_orchestrator True, no_calls)))) (uuid4 test_env)))))
       = Some (review_error_record (Exception ''connection refused''))
   \<and> response_validation (fst (generate_code review_fault_agents test_env ''add two numbers''
                                  (new_orchestrator True, no_calls))) ''review''
       = Some (PyDict [(''status'', PyStr (check_mark @ '' Completed'')),
                       (''score'', PyStr ''N/A''), (''summary'', PyStr [])])"
proof -
  let ?run = "generate_code review_fault_agents test_env ''add two numbers''
                (new_orchestrator True, no_calls)"
  have run: "?run = (fst ?run, fst (snd ?run), snd (snd ?run))" by simp
  have ok: "map_of (fst ?run) ''status'' = Some (PyStr ''success'')"
    by code_simp
  have stored: "review_result (sd_artifacts (the (fst (get_state (fst (snd ?run))
                  (uuid4 test_env)))))
                  = Some (review_error_record (Exception ''connection refused''))"
    by code_simp
  from review_entry_status_is_fixed [OF run ok] stored ok show ?thesis
    by auto
qed





text \<open>
  C2.  With the two checkers of the repository and any generator and reviewer: when
  \<^verbatim>\<open>generate_code\<close> answers with status \<open>success\<close>, the generation counter it reports
  is at least 1, and the code it returns is accepted by the syntax validator
  (\<open>SYNTAX_VALID\<close>) and by the reference verifier (\<open>VERIFIED\<close>).  A regeneration inside
  the hallucination stage is not validated again by the orchestrator; the verifier parses
  the code itself before it answers \<open>VERIFIED\<close>.
\<close>

theorem success_code_is_valid_and_verified:
  assumes "generate_code (repository_agents py gen reviewer) env req (orch, log)
             = (resp, orch', log')"
    and "map_of resp ''status'' = Some (PyStr ''success'')"
  shows "\<exists>code g. map_of resp ''code'' = Some (PyStr code)
           \<and> sr_status (SyntaxCheckerAgent_validate py (Some code)) = Some ''SYNTAX_VALID''
           \<and> hr_status (HallucinationDetectorAgent_verify py (Some code)) = Some ''VERIFIED''
           \<and> response_metadata resp ''generation_attempts'' = PyInt g \<and> 1 \<le> g"
  using assms(1)
proof (cases rule: generate_code_cases)
  case (completed s1 s2 s3 s4)
  let ?ag = "repository_agents py gen reviewer"
  let ?st = "(fst s4) \<lparr> status := Status_COMPLETED, current_stage := Stage_COMPLETED \<rparr>"
  have same: "generated_code (artifacts (fst s4)) = generated_code (artifacts (fst s3))"
    "attempts (fst s4) = attempts (fst s3)"
    using completed(4) run_code_review_effect [of ?ag s3 s4] by (simp_all split: if_splits)
  from run_hallucination_detection_verified [OF completed(3)]
  have verified: "hr_status (HallucinationDetectorAgent_verify py
                    (generated_code (artifacts (fst s3)))) = Some ''VERIFIED''"
    by (auto simp: repository_agents_def)
  from verified_implies_valid [OF this]
  obtain c where c: "generated_code (artifacts (fst s3)) = Some c"
    and valid: "sr_status (SyntaxCheckerAgent_validate py (Some c)) = Some ''SYNTAX_VALID''"
    by auto
  have "1 \<le> generation (attempts (fst s1))"
    using run_code_generation_effect [OF completed(1)] by simp
  then have "1 \<le> generation (attempts (fst s2))"
    using run_syntax_validation_effect [OF completed(2)]
    by (auto simp: generation_untouched_def generation_reentered_def)
  then have "1 \<le> generation (attempts (fst s3))"
    using run_hallucination_detection_effect [OF completed(3)]
    by (auto simp: generation_untouched_def generation_reentered_def)
  with same have g: "1 \<le> generation (attempts ?st)" by simp
  have "map_of resp ''code'' = Some (PyStr c)"
    using completed(5) same c by (simp add: compile_success_response_code code_value_def)
  moreover have "response_metadata resp ''generation_attempts''
                   = PyInt (generation (attempts ?st))"
    using completed(5) by (simp only: compile_success_response_attempts)
  ultimately show ?thesis using valid verified c g by auto
qed (use assms(2) in \<open>simp_all add: compile_failure_response_status\<close>)

theorem success_code_is_valid_and_verified_witness:
  "map_of (fst (generate_code
                  (repository_agents import_checking_python fake_import_generator
                     (review first_try_agents))
                  test_env ''list a directory'' (new_orchestrator True, no_calls))) ''status''
     = Some (PyStr ''success'')
   \<and> length (generate_calls (snd (snd (generate_code
                  (repository_agents import_checking_python fake_import_generator
                     (review first_try_agents))
                  test_env ''list a directory'' (new_orchestrator True, no_calls))))) = 2
   \<and> sr_status (SyntaxCheckerAgent_validate import_checking_python (Some ''import os''))
       = Some ''SYNTAX_VALID''
   \<and> hr_status (HallucinationDetectorAgent_verify import_checking_python (Some ''import os''))
       = Some ''VERIFIED''"
proof -
  let ?run = "generate_code
                (repository_agents import_checking_python fake_import_generator
                   (review first_try_agents))
                test_env ''list a directory'' (new_orchestrator True, no_calls)"
  have run: "?run = (fst ?run, fst (snd ?run), snd (snd ?run))" by simp
  have ok: "map_of (fst ?run) ''status'' = Some (PyStr ''success'')"
    by code_simp
  have code: "map_of (fst ?run) ''code'' = Some (PyStr ''import os'')"
    by code_simp
  have calls: "length (generate_calls (snd (snd ?run))) = 2"
    by code_simp
  from success_code_is_valid_and_verified [OF run ok] code ok calls show ?thesis
    by auto
qed

text \<open>
  C7.  When the validator rejects the code and supplies a corrected variant, the pass of
  the syntax loop stores the variant as the generated code, makes no call of the
  generation service and leaves the generation counter as it was; the loop goes on
  with its next pass, which validates the variant.  Over a whole run of the syntax stage,
  the generation counter can differ afterwards only if the generation service was called.
\<close>

theorem auto_correction_skips_generation:
  assumes "validate ag (length (validate_calls log)) (generated_code (artifacts st))
             (''Generated for: '' @ user_request st) = Inr result"
    and "sr_status result = Some verdict" and "verdict \<noteq> ''SYNTAX_VALID''"
    and "sr_corrected_code result = Some corrected" and "corrected \<noteq> []"
  shows "(\<exists>st' log'.
            syntax_validation_attempt ag attempt (st, log) = (None, st', log')
            \<and> generated_code (artifacts st') = Some corrected
            \<and> generation (attempts st') = generation (attempts st)
            \<and> generate_calls log' = generate_calls log
            \<and> for_attempts (syntax_validation_attempt ag) (attempt # next_attempt # rest) (st, log)
                = for_attempts (syntax_validation_attempt ag) (next_attempt # rest) (st', log')
            \<and> validate_calls (snd (snd (syntax_validation_attempt ag next_attempt (st', log'))))
                = validate_calls log
                  @ [(generated_code (artifacts st), ''Generated for: '' @ user_request st),
                     (Some corrected, ''Generated for: '' @ user_request st)])
       \<and> (\<forall>s. generate_calls (snd (snd (run_syntax_validation ag s))) = generate_calls (snd s)
              \<longrightarrow> generation (attempts (fst (snd (run_syntax_validation ag s))))
                    = generation (attempts (fst s)))"
proof -
  let ?st' = "st \<lparr> attempts := (attempts st) \<lparr> syntax_fix := attempt \<rparr>,
                    artifacts := (artifacts st) \<lparr> syntax_result := Some result,
                                                 generated_code := Some corrected \<rparr> \<rparr>"
  let ?log' = "log \<lparr> validate_calls := validate_calls log @
                 [(generated_code (artifacts st), ''Generated for: '' @ user_request st)] \<rparr>"
  have pass: "syntax_validation_attempt ag attempt (st, log) = (None, ?st', ?log')"
    using assms
    by (simp add: syntax_validation_attempt.simps Let_def corrected_code_available_def)
  obtain r s'' where nxt: "syntax_validation_attempt ag next_attempt (?st', ?log') = (r, s'')"
    by (cases "syntax_validation_attempt ag next_attempt (?st', ?log')")
  have "validate_calls (snd s'') = validate_calls log
                 @ [(generated_code (artifacts st), ''Generated for: '' @ user_request st),
                    (Some corrected, ''Generated for: '' @ user_request st)]"
    using syntax_validation_attempt_effect [OF nxt] by simp
  with pass nxt
  have first: "\<exists>st' log'.
           syntax_validation_attempt ag attempt (st, log) = (None, st', log')
           \<and> generated_code (artifacts st') = Some corrected
           \<and> generation (attempts st') = generation (attempts st)
           \<and> generate_calls log' = generate_calls log
           \<and> for_attempts (syntax_validation_attempt ag) (attempt # next_attempt # rest) (st, log)
               = for_attempts (syntax_validation_attempt ag) (next_attempt # rest) (st', log')
           \<and> validate_calls (snd (snd (syntax_validation_attempt ag next_attempt (st', log'))))
               = validate_calls log
                 @ [(generated_code (artifacts st), ''Generated for: '' @ user_request st),
                    (Some corrected, ''Generated for: '' @ user_request st)]"
    by (intro exI [of _ ?st'] exI [of _ ?log']) simp
  have second: "generation (attempts (fst (snd (run_syntax_validation ag s))))
                 = generation (attempts (fst s))"
    if same: "generate_calls (snd (snd (run_syntax_validation ag s))) = generate_calls (snd s)"
    for s
  proof -
    obtain ok s' where run: "run_syntax_validation ag s = (ok, s')"
      by (cases "run_syntax_validation ag s")
    from run_syntax_validation_effect [OF run] same run show ?thesis
      by (auto simp: generation_untouched_def generation_reentered_def)
  qed
  from first second show ?thesis by blast
qed

theorem auto_correction_skips_generation_witness:
  "validate auto_correction_agents 0 (Some ''def f()'') ''Generated for: add two numbers''
     = Inr (syntax_invalid (Some ''def f():''))
   \<and> fst (syntax_validation_attempt auto_correction_agents 1
            (snd (run_code_generation auto_correction_agents
                    (new_RequestState ''id-1'' ''add two numbers'' ''t0'', no_calls)))) = None
   \<and> generated_code (artifacts (fst (snd (syntax_validation_attempt auto_correction_agents 1
            (snd (run_code_generation auto_correction_agents
                    (new_RequestState ''id-1'' ''add two numbers'' ''t0'', no_calls)))))))
       = Some ''def f():''
   \<and> generation (attempts (fst (snd (syntax_validation_attempt auto_correction_agents 1
            (snd (run_code_generation auto_correction_agents
                    (new_RequestState ''id-1'' ''add two numbers'' ''t0'', no_calls)))))))
       = 1
   \<and> length (generate_calls (snd (snd (syntax_validation_attempt auto_correction_agents 1
            (snd (run_code_generation auto_correction_agents
                    (new_RequestState ''id-1'' ''add two numbers'' ''t0'', no_calls)))))))
       = 1"
proof -
  let ?s1 = "snd (run_code_generation auto_correction_agents
                    (new_RequestState ''id-1'' ''add two numbers'' ''t0'', no_calls))"
  have n: "length (validate_calls (snd ?s1)) = 0" by code_simp
  have c: "generated_code (artifacts (fst ?s1)) = Some ''def f()''" by code_simp
  have u: "user_request (fst ?s1) = ''add two numbers''" by code_simp
  have g: "generation (attempts (fst ?s1)) = 1" by code_simp
  have l: "length (generate_calls (snd ?s1)) = 1" by code_simp
  have 1: "validate auto_correction_agents (length (validate_calls (snd ?s1)))
             (generated_code (artifacts (fst ?s1))) (''Generated for: '' @ user_request (fst ?s1))
           = Inr (syntax_invalid (Some ''def f():''))"
    by (simp only: n c u) (simp add: auto_correction_agents_def)
  have 2: "sr_status (syntax_invalid (Some ''def f():'')) = Some ''SYNTAX_ERROR''"
    by (simp add: syntax_invalid_def)
  have 3: "''SYNTAX_ERROR'' \<noteq> ''SYNTAX_VALID''" by simp
  have 4: "sr_corrected_code (syntax_invalid (Some ''def f():'')) = Some ''def f():''"
    by (simp add: syntax_invalid_def)
  have 5: "''def f():'' \<noteq> []" by simp
  from auto_correction_skips_generation [OF 1 2 3 4 5, of 1 2 "[3]"] g l
  have "fst (syntax_validation_attempt auto_correction_agents 1 ?s1) = None
   \<and> generated_code (artifacts (fst (snd (syntax_validation_attempt auto_correction_agents 1 ?s1))))
       = Some ''def f():''
   \<and> generation (attempts (fst (snd (syntax_validation_attempt auto_correction_agents 1 ?s1)))) = 1
   \<and> length (generate_calls (snd (snd (syntax_validation_attempt auto_correction_agents 1 ?s1))))
       = 1"
    by (cases ?s1) auto
  moreover have "validate auto_correction_agents 0 (Some ''def f()'')
      ''Generated for: add two numbers'' = Inr (syntax_invalid (Some ''def f():''))"
    by (simp add: auto_correction_agents_def)
  ultimately show ?thesis by simp
qed




text \<open>
  C4.  There is a run with more generation calls than \<open>MAX_TOTAL_RETRIES\<close>: with a
  generator that needs its three attempts every time, a validator that accepts on its
  third pass and a verifier that never accepts, one request makes 18 generation calls
  and is not cut short (it fails in stage 3, on that stage's own budget, with both
  checking counters at 3).  Each checking stage re-enters generation with a fresh budget
  on each of its passes, so the generation calls of one stage are bounded by the product
  of its budget and the generation budget, and the product is reached.  For a whole
  request the bound is
  \<open>MAX_GENERATION_RETRIES * (1 + (MAX_SYNTAX_RETRIES - 1) + MAX_HALLUCINATION_RETRIES)\<close>,
  the 18 calls of the run above.  \<open>MAX_TOTAL_RETRIES\<close> occurs in no definition of the
  orchestrator.
\<close>

theorem generation_calls_exceed_declared_total:
  "MAX_TOTAL_RETRIES
     < int (length (generate_calls (snd (snd (generate_code worst_case_agents test_env
              ''add two numbers'' (new_orchestrator True, no_calls))))))
   \<and> response_metadata (fst (generate_code worst_case_agents test_env ''add two numbers''
        (new_orchestrator True, no_calls))) ''syntax_fix_attempts'' = PyInt 3
   \<and> response_metadata (fst (generate_code worst_case_agents test_env ''add two numbers''
        (new_orchestrator True, no_calls))) ''hallucination_fix_attempts'' = PyInt 3
   \<and> int (length (generate_calls (snd (snd (run_syntax_validation ag s)))))
       \<le> int (length (generate_calls (snd s))) + MAX_SYNTAX_RETRIES * MAX_GENERATION_RETRIES
   \<and> int (length (generate_calls (snd (snd (run_hallucination_detection ag s)))))
       \<le> int (length (generate_calls (snd s)))
           + MAX_HALLUCINATION_RETRIES * MAX_GENERATION_RETRIES
   \<and> int (length (generate_calls (snd (snd (run_syntax_validation never_accepting_agents
        (new_RequestState ''id-1'' ''add two numbers'' ''t0'', no_calls))))))
       = MAX_SYNTAX_RETRIES * MAX_GENERATION_RETRIES
   \<and> int (length (generate_calls (snd (snd (run_hallucination_detection never_accepting_agents
        (new_RequestState ''id-1'' ''add two numbers'' ''t0'', no_calls))))))
       = MAX_HALLUCINATION_RETRIES * MAX_GENERATION_RETRIES
   \<and> int (length (generate_calls (snd (snd (generate_code ag env req (orch, log))))))
       \<le> int (length (generate_calls log))
           + MAX_GENERATION_RETRIES * (1 + (MAX_SYNTAX_RETRIES - 1) + MAX_HALLUCINATION_RETRIES)
   \<and> int (length (generate_calls (snd (snd (generate_code worst_case_agents test_env
              ''add two numbers'' (new_orchestrator True, no_calls))))))
       = MAX_GENERATION_RETRIES * (1 + (MAX_SYNTAX_RETRIES - 1) + MAX_HALLUCINATION_RETRIES)"
proof -
  have worst: "length (generate_calls (snd (snd (generate_code worst_case_agents test_env
              ''add two numbers'' (new_orchestrator True, no_calls))))) = 18"
    by code_simp
  have counters:
    "response_metadata (fst (generate_code worst_case_agents test_env ''add two numbers''
        (new_orchestrator True, no_calls))) ''syntax_fix_attempts'' = PyInt 3"
    "response_metadata (fst (generate_code worst_case_agents test_env ''add two numbers''
        (new_orchestrator True, no_calls))) ''hallucination_fix_attempts'' = PyInt 3"
    by code_simp+
  have syntax_reached: "length (generate_calls (snd (snd (run_syntax_validation
        never_accepting_agents
        (new_RequestState ''id-1'' ''add two numbers'' ''t0'', no_calls))))) = 9"
    by code_simp
  have hallucination_reached: "length (generate_calls (snd (snd (run_hallucination_detection
        never_accepting_agents
        (new_RequestState ''id-1'' ''add two numbers'' ''t0'', no_calls))))) = 9"
    by code_simp
  have syntax_bound: "length (generate_calls (snd (snd (run_syntax_validation ag s))))
       \<le> length (generate_calls (snd s)) + 9"
  proof -
    obtain ok s' where run: "run_syntax_validation ag s = (ok, s')"
      by (cases "run_syntax_validation ag s")
    from run_syntax_validation_effect [OF run] run show ?thesis by simp
  qed
  have hallucination_bound:
    "length (generate_calls (snd (snd (run_hallucination_detection ag s))))
       \<le> length (generate_calls (snd s)) + 9"
  proof -
    obtain ok s' where run: "run_hallucination_detection ag s = (ok, s')"
      by (cases "run_hallucination_detection ag s")
    from run_hallucination_detection_effect [OF run] run show ?thesis by simp
  qed
  note request_bound = generation_calls_of_request [of ag env req orch log]
  show ?thesis
    using syntax_bound hallucination_bound request_bound
    by (simp add: worst counters syntax_reached hallucination_reached MAX_TOTAL_RETRIES_def
          MAX_GENERATION_RETRIES_def MAX_SYNTAX_RETRIES_def MAX_HALLUCINATION_RETRIES_def)
qed

text \<open>
  C3 against the code.  The validator never accepts and never corrects, every
  generation succeeds: stage 1 returns True, the syntax stage uses its three passes and
  returns False, and the failure response names \<open>code_generation\<close> as the stage of the
  failure, not \<open>syntax_check\<close>.
\<close>

theorem syntax_exhaustion_reported_as_generation:
  "fst (run_code_generation syntax_never_valid_agents
          (new_RequestState (uuid4 test_env) ''add two numbers'' (now_created test_env), no_calls))
   \<and> \<not> fst (run_syntax_validation syntax_never_valid_agents
          (snd (run_code_generation syntax_never_valid_agents
             (new_RequestState (uuid4 test_env) ''add two numbers'' (now_created test_env),
              no_calls))))
   \<and> map_of (fst (generate_code syntax_never_valid_agents test_env ''add two numbers''
                  (new_orchestrator True, no_calls))) ''status'' = Some (PyStr ''failed'')
   \<and> response_metadata (fst (generate_code syntax_never_valid_agents test_env ''add two numbers''
        (new_orchestrator True, no_calls))) ''syntax_fix_attempts'' = PyInt MAX_SYNTAX_RETRIES
   \<and> response_metadata (fst (generate_code syntax_never_valid_agents test_env ''add two numbers''
        (new_orchestrator True, no_calls))) ''failed_at_stage'' = PyStr ''code_generation''"
  by (intro conjI; code_simp)

text \<open>
  C8 against the code.  The validator rejects the first code without a corrected
  variant; its feedback is appended to the error log and the generation stage is invoked
  again.  The call made then is attempt 1 of a new loop, and the request it sends has
  neither \<open>feedback\<close> nor \<open>previous_attempt\<close>, although the error log holds the feedback.
  The same holds in every state: the request of attempt 1 never has the two keys.
\<close>

theorem regeneration_request_without_feedback:
  "map_of (fst (generate_code syntax_retry_agents test_env ''add two numbers''
                  (new_orchestrator True, no_calls))) ''status'' = Some (PyStr ''success'')
   \<and> sd_error_messages (the (fst (get_state
        (fst (snd (generate_code syntax_retry_agents test_env ''add two numbers''
                     (new_orchestrator True, no_calls)))) (uuid4 test_env))))
       = [format_syntax_errors (syntax_invalid None)]
   \<and> map feedback (generate_calls (snd (snd (generate_code syntax_retry_agents test_env
        ''add two numbers'' (new_orchestrator True, no_calls))))) = [None, None]
   \<and> map previous_attempt (generate_calls (snd (snd (generate_code syntax_retry_agents test_env
        ''add two numbers'' (new_orchestrator True, no_calls))))) = [None, None]
   \<and> feedback (generation_request_data 1 state) = None
   \<and> previous_attempt (generation_request_data 1 state) = None"
proof -
  have "feedback (generation_request_data 1 state) = None"
    "previous_attempt (generation_request_data 1 state) = None"
    by (simp_all add: generation_request_data_def)
  moreover have
    "map_of (fst (generate_code syntax_retry_agents test_env ''add two numbers''
                  (new_orchestrator True, no_calls))) ''status'' = Some (PyStr ''success'')"
    "sd_error_messages (the (fst (get_state
        (fst (snd (generate_code syntax_retry_agents test_env ''add two numbers''
                     (new_orchestrator True, no_calls)))) (uuid4 test_env))))
       = [format_syntax_errors (syntax_invalid None)]"
    "map feedback (generate_calls (snd (snd (generate_code syntax_retry_agents test_env
        ''add two numbers'' (new_orchestrator True, no_calls))))) = [None, None]"
    "map previous_attempt (generate_calls (snd (snd (generate_code syntax_retry_agents test_env
        ''add two numbers'' (new_orchestrator True, no_calls))))) = [None, None]"
    by code_simp+
  ultimately show ?thesis by simp
qed

end
